theory Spec2Isabelle
  imports Complex_Main "HOL-Library.List_Lexorder" "HOL-Library.Char_ord" "HOL-Library.Option_ord"
begin

section \<open>Python values: exceptions, numbers as text\<close>

text \<open>
  An exception of the source is a value: its class and the text that \<^verbatim>\<open>str(e)\<close> gives.
  \<open>StoreError\<close> stands for whatever \<^verbatim>\<open>sqlite3\<close> raises (OperationalError, IntegrityError, ...),
  \<open>ServiceError\<close> for whatever the text-generation client raises; all of them are
  subclasses of \<^verbatim>\<open>Exception\<close>. A function that can raise returns \<open>error + 'a\<close>, with
  \<open>Inl\<close> for the exception that leaves it. What the source prints to the console is left
  out.
\<close>

datatype error =
    NameError string
  | ZeroDivisionError string
  | StoreError string
  | ServiceError string

fun str_error :: "error \<Rightarrow> string" where
  "str_error (NameError m) = m"
| "str_error (ZeroDivisionError m) = m"
| "str_error (StoreError m) = m"
| "str_error (ServiceError m) = m"

definition bindE :: "error + 'a \<Rightarrow> ('a \<Rightarrow> error + 'b) \<Rightarrow> error + 'b" where
  "bindE m f = (case m of Inl e \<Rightarrow> Inl e | Inr v \<Rightarrow> f v)"

text \<open>
  \<^verbatim>\<open>str(n)\<close> for a non-negative integer.
\<close>

definition digit_char :: "nat \<Rightarrow> char" where
  "digit_char d = ''0123456789'' ! d"

fun str_nat :: "nat \<Rightarrow> string" where
  "str_nat n = (if n < 10 then [digit_char n] else str_nat (n div 10) @ [digit_char (n mod 10)])"

declare str_nat.simps [simp del]

text \<open>
  The columns of type REAL and the results of AVG are doubles in the source. They are
  modelled as real numbers: a finite double is taken for the number it denotes, and the
  rounding of each arithmetic operation is left out. Python formats a double with
  \<^verbatim>\<open>:.0f\<close> and \<^verbatim>\<open>:.1f\<close>, and rounds it with \<^verbatim>\<open>round(x, 1)\<close>, to the nearest decimal
  of that many places, an exact tie going to the even neighbour.
\<close>

definition round_half_even :: "real \<Rightarrow> int" where
  "round_half_even x =
     (let f = \<lfloor>x\<rfloor>; d = x - of_int f
      in if d < 1 / 2 then f else if 1 / 2 < d then f + 1 else if even f then f else f + 1)"

definition zero_pad :: "nat \<Rightarrow> string \<Rightarrow> string" where
  "zero_pad p s = replicate (p - length s) (CHR ''0'') @ s"

definition format_f :: "nat \<Rightarrow> real \<Rightarrow> string" where
  "format_f p x =
     (let m = nat (round_half_even (\<bar>x\<bar> * 10 ^ p));
          digits = str_nat (m div 10 ^ p) @
                   (if p = 0 then [] else ''.'' @ zero_pad p (str_nat (m mod 10 ^ p)))
      in if x < 0 then ''-'' @ digits else digits)"

definition py_round :: "real \<Rightarrow> nat \<Rightarrow> real" where
  "py_round x ndigits = of_int (round_half_even (x * 10 ^ ndigits)) / 10 ^ ndigits"

section \<open>models.py: PerformanceRecord\<close>

text \<open>
  The columns of the class, in the order of the source (\<open>id\<close> is written \<open>record_id\<close>:
  \<open>id\<close> is the identity function of HOL). \<open>topics_covered\<close> is the one nullable column.
\<close>

record PerformanceRecord =
  record_id :: int
  user_id :: int
  subject :: string
  assessment_type :: string
  score :: real
  max_score :: real
  date :: string
  topics_covered :: "string option"
  created_at :: string

text \<open>
  \<^verbatim>\<open>return round((self.score / self.max_score) * 100, 1)\<close>: a division of doubles, which
  raises ZeroDivisionError when the divisor is zero. Nothing in the class or the column
  declaration (\<^verbatim>\<open>db.Float, nullable=False\<close>) excludes \<open>max_score = 0\<close>.
\<close>

definition percentage :: "PerformanceRecord \<Rightarrow> error + real" where
  "percentage self =
     (if max_score self = 0 then Inl (ZeroDivisionError ''float division by zero'')
      else Inr (py_round ((score self / max_score self) * 100) 1))"

section \<open>app.py: the data store\<close>

text \<open>
  The three tables of \<^verbatim>\<open>init_db\<close>, one record per row. A column is named as in the SQL
  of the source, after the alias the queries give its table (\<open>s\<close> for study_sessions,
  \<open>w\<close> for wellness_tracking, and \<open>p\<close> for performance_records): \<open>s_subject\<close> is
  \<^verbatim>\<open>s.subject\<close>. INTEGER columns hold what \<^verbatim>\<open>int(...)\<close> of the form field gave, REAL
  columns what \<^verbatim>\<open>float(...)\<close> gave, and nothing checks a range.
\<close>

record study_session =
  s_id :: int
  s_subject :: string
  s_duration :: int
  s_start_time :: string
  s_end_time :: string
  s_study_method :: string
  s_difficulty_level :: int
  s_focus_rating :: int
  s_notes :: string
  s_created_at :: string

record performance_row =
  p_id :: int
  p_subject :: string
  p_assessment_type :: string
  p_score :: real
  p_max_score :: real
  p_date :: string
  p_topics_covered :: string
  p_created_at :: string

record wellness_entry =
  w_id :: int
  w_date :: string
  w_sleep_hours :: real
  w_stress_level :: int
  w_mood_rating :: int
  w_exercise_minutes :: int
  w_caffeine_intake :: int
  w_notes :: string
  w_created_at :: string

text \<open>
  The statements the modelled functions send to the store. Each of them can fail there
  for a reason outside the tables (no file, no table, a locked database): \<open>failure\<close>
  says which do, and with what exception. The failure that the rows themselves cause, the
  overflow of a SUM, is defined with the queries below.
\<close>

datatype statement =
    Connect
  | Select_study_data
  | Select_performance_data
  | Select_wellness_data
  | Select_stats
  | Select_focus_data
  | Select_subject_performance
  | Select_wellness_study_correlation

text \<open>
  The store: the rows of the three tables in the order of their ids, the functions DATE
  and TIME of SQLite, which the queries call and the repository does not define (each
  gives NULL, here \<open>None\<close>, on a text it cannot read), and the failures.
\<close>

record datastore =
  study_sessions :: "study_session list"
  performance_records :: "performance_row list"
  wellness_tracking :: "wellness_entry list"
  DATE :: "string \<Rightarrow> string option"
  TIME :: "string \<Rightarrow> string option"
  failure :: "statement \<Rightarrow> error option"

subsection \<open>SQL: grouping, ordering, aggregates\<close>

text \<open>
  GROUP BY gives one group per distinct key. ORDER BY sorts on the key; among rows of equal
  key, and among groups when there is no ORDER BY, SQLite fixes no order, and the model
  takes one. AVG of a group divides the sum by the number of rows; a group is never empty.
  An aggregate over a table with no GROUP BY gives NULL on no rows.
\<close>

definition group_keys :: "('a \<Rightarrow> 'k) \<Rightarrow> 'a list \<Rightarrow> 'k list" where
  "group_keys k rows = remdups (map k rows)"

definition order_by :: "('a \<Rightarrow> 'k::linorder) \<Rightarrow> 'a list \<Rightarrow> 'a list" where
  "order_by k rows = sort_key k rows"

definition order_by_desc :: "('a \<Rightarrow> 'k::linorder) \<Rightarrow> 'a list \<Rightarrow> 'a list" where
  "order_by_desc k rows = rev (sort_key k rows)"

definition AVG :: "real list \<Rightarrow> real" where
  "AVG xs = sum_list xs / real (length xs)"

definition AVG_or_NULL :: "real list \<Rightarrow> real option" where
  "AVG_or_NULL xs = (if xs = [] then None else Some (AVG xs))"

text \<open>
  \<^verbatim>\<open>a = b\<close> in an ON clause: a NULL on either side never matches.
\<close>

fun sql_eq :: "'a option \<Rightarrow> 'a option \<Rightarrow> bool" where
  "sql_eq (Some a) (Some b) = (a = b)"
| "sql_eq _ _ = False"

subsection \<open>The three queries of \<^verbatim>\<open>patterns\<close>\<close>

record focus_data_row =
  fd_focus_rating :: int
  fd_avg_duration :: real

record subject_performance_row =
  sp_subject :: string
  sp_avg_focus :: real
  sp_session_count :: nat
  sp_total_minutes :: int

record wellness_study_correlation_row =
  wc_sleep_hours :: real
  wc_stress_level :: int
  wc_avg_focus :: real

text \<open>
  \<^verbatim>\<open>SELECT focus_rating, AVG(duration) as avg_duration FROM study_sessions
  GROUP BY focus_rating ORDER BY focus_rating\<close>
\<close>

definition focus_data_query :: "study_session list \<Rightarrow> focus_data_row list" where
  "focus_data_query ss =
     order_by fd_focus_rating
       (map (\<lambda>g. \<lparr>fd_focus_rating = g,
                   fd_avg_duration = AVG (map (\<lambda>s. real_of_int (s_duration s))
                                              [s \<leftarrow> ss. s_focus_rating s = g])\<rparr>)
            (group_keys s_focus_rating ss))"

text \<open>
  \<^verbatim>\<open>SELECT s.subject, AVG(s.focus_rating) as avg_focus, COUNT(s.id) as session_count,
  SUM(s.duration) as total_minutes FROM study_sessions s GROUP BY s.subject
  HAVING session_count >= 2 ORDER BY avg_focus DESC\<close>. \<open>subject_performance_query\<close> gives
  the rows of the statement when it gives rows: SUM raises instead when the total of a
  group overflows, and \<open>execute\<close> below decides which of the two happens.
\<close>

definition subject_group :: "study_session list \<Rightarrow> string \<Rightarrow> subject_performance_row" where
  "subject_group ss g =
     (let grp = [s \<leftarrow> ss. s_subject s = g]
      in \<lparr>sp_subject = g,
          sp_avg_focus = AVG (map (\<lambda>s. real_of_int (s_focus_rating s)) grp),
          sp_session_count = length grp,
          sp_total_minutes = sum_list (map s_duration grp)\<rparr>)"

definition subject_performance_query :: "study_session list \<Rightarrow> subject_performance_row list" where
  "subject_performance_query ss =
     order_by_desc sp_avg_focus
       (filter (\<lambda>row. 2 \<le> sp_session_count row)
          (map (subject_group ss) (group_keys s_subject ss)))"

text \<open>
  \<^verbatim>\<open>SELECT w.sleep_hours, w.stress_level, AVG(s.focus_rating) as avg_focus
  FROM wellness_tracking w JOIN study_sessions s ON DATE(w.date) = DATE(s.created_at)
  GROUP BY w.sleep_hours, w.stress_level HAVING COUNT(*) >= 2\<close>
\<close>

definition joined_on_date ::
  "(string \<Rightarrow> string option) \<Rightarrow> wellness_entry list \<Rightarrow> study_session list \<Rightarrow>
   (wellness_entry \<times> study_session) list" where
  "joined_on_date date_fn ws ss =
     filter (\<lambda>j. sql_eq (date_fn (w_date (fst j))) (date_fn (s_created_at (snd j))))
       (List.product ws ss)"

definition sleep_stress :: "wellness_entry \<times> study_session \<Rightarrow> real \<times> int" where
  "sleep_stress j = (w_sleep_hours (fst j), w_stress_level (fst j))"

definition wellness_study_correlation_query ::
  "(string \<Rightarrow> string option) \<Rightarrow> wellness_entry list \<Rightarrow> study_session list \<Rightarrow>
   wellness_study_correlation_row list" where
  "wellness_study_correlation_query date_fn ws ss =
     (let joined = joined_on_date date_fn ws ss
      in map (\<lambda>g. \<lparr>wc_sleep_hours = fst g, wc_stress_level = snd g,
                     wc_avg_focus = AVG (map (\<lambda>j. real_of_int (s_focus_rating (snd j)))
                                             [j \<leftarrow> joined. sleep_stress j = g])\<rparr>)
           (filter (\<lambda>g. 2 \<le> length [j \<leftarrow> joined. sleep_stress j = g])
              (group_keys sleep_stress joined)))"

subsection \<open>Running a statement\<close>

text \<open>
  An INTEGER of SQLite has 64 bits, and every stored value is in that range. SUM adds the
  values of a group one by one into a 64-bit integer, in the order it reads them (taken
  here to be the order of the table), and raises \<^verbatim>\<open>integer overflow\<close> at the end of the
  group when one of these additions left the range. AVG and COUNT do not raise.
\<close>

definition int64 :: "int \<Rightarrow> bool" where
  "int64 i = (- (2 ^ 63) \<le> i \<and> i < 2 ^ 63)"

fun SUM_overflows :: "int \<Rightarrow> int list \<Rightarrow> bool" where
  "SUM_overflows acc [] = False"
| "SUM_overflows acc (x # xs) = (if int64 (acc + x) then SUM_overflows (acc + x) xs else True)"

definition subject_total_overflows :: "study_session list \<Rightarrow> bool" where
  "subject_total_overflows ss =
     (\<exists>g \<in> set (group_keys s_subject ss).
        SUM_overflows 0 (map s_duration [s \<leftarrow> ss. s_subject s = g]))"

text \<open>
  What makes a statement raise: a failure of the store, or else, for the one statement
  with a SUM, the overflow that the rows cause.
\<close>

definition statement_failure :: "datastore \<Rightarrow> statement \<Rightarrow> error option" where
  "statement_failure ds st =
     (case failure ds st of
        Some e \<Rightarrow> Some e
      | None \<Rightarrow>
          if st = Select_subject_performance \<and> subject_total_overflows (study_sessions ds)
          then Some (StoreError ''integer overflow'') else None)"

definition get_db_connection :: "datastore \<Rightarrow> error + datastore" where
  "get_db_connection ds =
     (case statement_failure ds Connect of Some e \<Rightarrow> Inl e | None \<Rightarrow> Inr ds)"

definition execute :: "datastore \<Rightarrow> statement \<Rightarrow> 'a \<Rightarrow> error + 'a" where
  "execute conn st rows =
     (case statement_failure conn st of Some e \<Rightarrow> Inl e | None \<Rightarrow> Inr rows)"

text \<open>
  The first failure among the statements a function sends, in the order it sends them.
\<close>

fun first_failure :: "datastore \<Rightarrow> statement list \<Rightarrow> error option" where
  "first_failure ds [] = None"
| "first_failure ds (st # sts) =
     (case statement_failure ds st of Some e \<Rightarrow> Some e | None \<Rightarrow> first_failure ds sts)"

section \<open>app.py: \<^verbatim>\<open>patterns\<close>\<close>

text \<open>
  A finding is the dict the source appends to \<^verbatim>\<open>patterns\<close>, with its four keys. A text is
  the list of its UTF-8 bytes: a character outside ASCII is written byte by byte.
\<close>

record finding =
  title :: string
  description :: string
  recommendation :: string
  type :: string

text \<open>
  The four blocks of the source that append to the list, and the fallback, each a function
  from the list so far to the list after it. \<open>found\<close> is the variable \<^verbatim>\<open>patterns\<close> of
  the source; each dict the source builds is a function of the values its f-strings use.
\<close>

definition high_focus_finding :: "real \<Rightarrow> finding" where
  "high_focus_finding avg_duration =
     \<lparr>title = [CHR 0xF0, CHR 0x9F, CHR 0x8E, CHR 0xAF] @ '' High Focus Sessions'',
      description = ''Your high-focus sessions (4-5 rating) average '' @
                    format_f 0 avg_duration @ '' minutes'',
      recommendation = ''Try to replicate conditions that lead to high focus sessions!'',
      type = ''positive''\<rparr>"

definition analyze_focus :: "focus_data_row list \<Rightarrow> finding list \<Rightarrow> finding list" where
  "analyze_focus focus_data found =
     (if focus_data \<noteq> [] then
        (let high_focus_sessions = [row \<leftarrow> focus_data. 4 \<le> fd_focus_rating row]
         in if high_focus_sessions \<noteq> [] then
              (let avg_duration = sum_list (map fd_avg_duration high_focus_sessions)
                                  / real (length high_focus_sessions)
               in found @ [high_focus_finding avg_duration])
            else found)
      else found)"

definition top_subject_finding :: "subject_performance_row \<Rightarrow> finding" where
  "top_subject_finding best_subject =
     \<lparr>title = [CHR 0xF0, CHR 0x9F, CHR 0x93, CHR 0x9A] @ '' Top Subject: '' @ sp_subject best_subject,
      description = ''Average focus rating: '' @ format_f 1 (sp_avg_focus best_subject) @ ''/5 ('' @
                    str_nat (sp_session_count best_subject) @ '' sessions)'',
      recommendation = ''You focus well on '' @ sp_subject best_subject @
                       ''. Apply similar techniques to other subjects.'',
      type = ''insight''\<rparr>"

definition struggling_subject_finding :: "subject_performance_row \<Rightarrow> finding" where
  "struggling_subject_finding struggling_subject =
     \<lparr>title = [CHR 0xE2, CHR 0x9A, CHR 0xA0, CHR 0xEF, CHR 0xB8, CHR 0x8F] @ '' Needs Attention: '' @
              sp_subject struggling_subject,
      description = ''Average focus rating: '' @ format_f 1 (sp_avg_focus struggling_subject) @ ''/5'',
      recommendation = ''Try different study methods for '' @ sp_subject struggling_subject @
                       '' or study it when you're most alert.'',
      type = ''warning''\<rparr>"

definition analyze_subjects :: "subject_performance_row list \<Rightarrow> finding list \<Rightarrow> finding list" where
  "analyze_subjects subject_performance found =
     (if subject_performance \<noteq> [] then
        (let best_subject = hd subject_performance;
             found1 = found @ [top_subject_finding best_subject]
         in if 1 < length subject_performance then
              (let struggling_subject = last subject_performance
               in if sp_avg_focus struggling_subject < 3 then
                    found1 @ [struggling_subject_finding struggling_subject]
                  else found1)
            else found1)
      else found)"

definition sleep_focus_finding :: "real \<Rightarrow> finding" where
  "sleep_focus_finding avg_focus_good_sleep =
     \<lparr>title = [CHR 0xF0, CHR 0x9F, CHR 0x98, CHR 0xB4] @ '' Sleep & Focus Connection'',
      description = ''With 7+ hours sleep, your average focus is '' @
                    format_f 1 avg_focus_good_sleep @ ''/5'',
      recommendation = ''Prioritize getting enough sleep for better study sessions!'',
      type = ''insight''\<rparr>"

definition analyze_wellness ::
  "wellness_study_correlation_row list \<Rightarrow> finding list \<Rightarrow> finding list" where
  "analyze_wellness wellness_study_correlation found =
     (if wellness_study_correlation \<noteq> [] then
        (let high_sleep_focus = [row \<leftarrow> wellness_study_correlation. 7 \<le> wc_sleep_hours row]
         in if high_sleep_focus \<noteq> [] then
              (let avg_focus_good_sleep = sum_list (map wc_avg_focus high_sleep_focus)
                                          / real (length high_sleep_focus)
               in found @ [sleep_focus_finding avg_focus_good_sleep])
            else found)
      else found)"

definition getting_started_finding :: finding where
  "getting_started_finding =
     \<lparr>title = [CHR 0xF0, CHR 0x9F, CHR 0x93, CHR 0x8A] @ '' Getting Started'',
      description = ''Keep logging your study sessions to discover your personal learning patterns!'',
      recommendation = ''Try logging at least 5-10 study sessions to see meaningful insights.'',
      type = ''info''\<rparr>"

definition if_no_patterns :: "finding list \<Rightarrow> finding list" where
  "if_no_patterns found = (if found = [] then found @ [getting_started_finding] else found)"

text \<open>
  The list after the four analysing blocks, and the list the function hands to the
  template.
\<close>

definition analysed ::
  "focus_data_row list \<Rightarrow> subject_performance_row list \<Rightarrow>
   wellness_study_correlation_row list \<Rightarrow> finding list" where
  "analysed focus_data subject_performance wellness_study_correlation =
     analyze_wellness wellness_study_correlation
       (analyze_subjects subject_performance (analyze_focus focus_data []))"

definition findings ::
  "focus_data_row list \<Rightarrow> subject_performance_row list \<Rightarrow>
   wellness_study_correlation_row list \<Rightarrow> finding list" where
  "findings focus_data subject_performance wellness_study_correlation =
     if_no_patterns (analysed focus_data subject_performance wellness_study_correlation)"

text \<open>
  The whole function: the connection, the three queries, each of which can raise (nothing
  catches it here), then the findings. Its value is the list given to \<^verbatim>\<open>render_template\<close>.
\<close>

definition patterns :: "datastore \<Rightarrow> error + finding list" where
  "patterns ds =
     bindE (get_db_connection ds) (\<lambda>conn.
     bindE (execute conn Select_focus_data (focus_data_query (study_sessions conn))) (\<lambda>focus_data.
     bindE (execute conn Select_subject_performance
              (subject_performance_query (study_sessions conn))) (\<lambda>subject_performance.
     bindE (execute conn Select_wellness_study_correlation
              (wellness_study_correlation_query (DATE conn) (wellness_tracking conn)
                 (study_sessions conn))) (\<lambda>wellness_study_correlation.
     Inr (findings focus_data subject_performance wellness_study_correlation)))))"

definition patterns_statements :: "statement list" where
  "patterns_statements =
     [Connect, Select_focus_data, Select_subject_performance, Select_wellness_study_correlation]"

section \<open>\<^verbatim>\<open>app_old.py\<close>: \<^verbatim>\<open>patterns\<close>\<close>

text \<open>
  The names bound at the top level of \<^verbatim>\<open>app_old.py\<close>: what it imports and what it defines,
  in the order of the file. A function of the module that uses any other name, not a
  builtin of Python, raises NameError when the call reaches it.
\<close>

definition app_old_globals :: "string list" where
  "app_old_globals =
     [''Flask'', ''render_template'', ''request'', ''redirect'', ''url_for'', ''flash'', ''jsonify'',
      ''SQLAlchemy'', ''Migrate'', ''LoginManager'', ''login_user'', ''logout_user'',
      ''login_required'', ''current_user'', ''datetime'', ''os'', ''genai'', ''load_dotenv'', ''json'',
      ''db'', ''User'', ''StudySession'', ''PerformanceRecord'', ''WellnessTracking'',
      ''LoginForm'', ''RegisterForm'', ''app'', ''migrate'', ''login_manager'', ''load_user'',
      ''GEMINI_API_KEY'', ''model'', ''get_ai_insights'', ''login'', ''register'', ''logout'',
      ''home'', ''dashboard'', ''log_study'', ''patterns'', ''ai_insights'', ''log_performance'',
      ''log_wellness'', ''api_study_data'', ''delete_study_session'',
      ''delete_performance_record'', ''delete_wellness_entry'']"

definition app_old_global :: "string \<Rightarrow> error + unit" where
  "app_old_global name =
     (if name \<in> set app_old_globals then Inr ()
      else Inl (NameError (''name '' @ [CHR 0x27] @ name @ [CHR 0x27] @ '' is not defined'')))"

text \<open>
  \<^verbatim>\<open>patterns\<close> of \<^verbatim>\<open>app_old.py\<close> has the text of \<^verbatim>\<open>patterns\<close> of app.py; its first statement
  is \<^verbatim>\<open>conn = get_db_connection()\<close>.
\<close>

definition app_old_patterns :: "datastore \<Rightarrow> error + finding list" where
  "app_old_patterns ds = bindE (app_old_global ''get_db_connection'') (\<lambda>_. patterns ds)"

section \<open>app.py: \<^verbatim>\<open>get_ai_insights\<close>\<close>

subsection \<open>The four queries\<close>

record study_data_row =
  sd_subject :: string
  sd_duration :: int
  sd_focus_rating :: int
  sd_difficulty_level :: int
  sd_study_method :: string
  sd_date :: "string option"
  sd_start_time :: "string option"
  sd_end_time :: "string option"

record performance_data_row =
  pd_subject :: string
  pd_score :: real
  pd_max_score :: real
  pd_assessment_type :: string
  pd_date :: string

record wellness_data_row =
  wd_sleep_hours :: real
  wd_stress_level :: int
  wd_mood_rating :: int
  wd_exercise_minutes :: int
  wd_caffeine_intake :: int
  wd_date :: "string option"

record stats_row =
  st_total_sessions :: nat
  st_avg_focus :: "real option"
  st_avg_duration :: "real option"
  st_subjects_count :: nat

text \<open>
  \<^verbatim>\<open>SELECT subject, duration, focus_rating, difficulty_level, study_method,
  DATE(created_at) as date, TIME(start_time) as start_time, TIME(end_time) as end_time
  FROM study_sessions ORDER BY created_at DESC LIMIT 20\<close>
\<close>

definition study_data_query ::
  "(string \<Rightarrow> string option) \<Rightarrow> (string \<Rightarrow> string option) \<Rightarrow> study_session list \<Rightarrow>
   study_data_row list" where
  "study_data_query date_fn time_fn ss =
     map (\<lambda>s. \<lparr>sd_subject = s_subject s, sd_duration = s_duration s,
                 sd_focus_rating = s_focus_rating s, sd_difficulty_level = s_difficulty_level s,
                 sd_study_method = s_study_method s, sd_date = date_fn (s_created_at s),
                 sd_start_time = time_fn (s_start_time s), sd_end_time = time_fn (s_end_time s)\<rparr>)
       (take 20 (order_by_desc s_created_at ss))"

text \<open>
  \<^verbatim>\<open>SELECT subject, score, max_score, assessment_type, date FROM performance_records
  ORDER BY date DESC LIMIT 10\<close>
\<close>

definition performance_data_query :: "performance_row list \<Rightarrow> performance_data_row list" where
  "performance_data_query ps =
     map (\<lambda>p. \<lparr>pd_subject = p_subject p, pd_score = p_score p, pd_max_score = p_max_score p,
                 pd_assessment_type = p_assessment_type p, pd_date = p_date p\<rparr>)
       (take 10 (order_by_desc p_date ps))"

text \<open>
  \<^verbatim>\<open>SELECT sleep_hours, stress_level, mood_rating, exercise_minutes, caffeine_intake,
  DATE(date) as date FROM wellness_tracking ORDER BY date DESC LIMIT 10\<close>. In ORDER BY, a name
  that is the alias of a result column means that column: the rows are sorted on
  \<^verbatim>\<open>DATE(date)\<close>, a NULL below every text.
\<close>

definition wellness_data_query ::
  "(string \<Rightarrow> string option) \<Rightarrow> wellness_entry list \<Rightarrow> wellness_data_row list" where
  "wellness_data_query date_fn ws =
     take 10 (order_by_desc wd_date
       (map (\<lambda>w. \<lparr>wd_sleep_hours = w_sleep_hours w, wd_stress_level = w_stress_level w,
                   wd_mood_rating = w_mood_rating w, wd_exercise_minutes = w_exercise_minutes w,
                   wd_caffeine_intake = w_caffeine_intake w, wd_date = date_fn (w_date w)\<rparr>) ws))"

text \<open>
  \<^verbatim>\<open>SELECT COUNT(*) as total_sessions, AVG(focus_rating) as avg_focus,
  AVG(duration) as avg_duration, COUNT(DISTINCT subject) as subjects_count
  FROM study_sessions\<close>
\<close>

definition stats_query :: "study_session list \<Rightarrow> stats_row" where
  "stats_query ss =
     \<lparr>st_total_sessions = length ss,
      st_avg_focus = AVG_or_NULL (map (\<lambda>s. real_of_int (s_focus_rating s)) ss),
      st_avg_duration = AVG_or_NULL (map (\<lambda>s. real_of_int (s_duration s)) ss),
      st_subjects_count = length (remdups (map s_subject ss))\<rparr>"

subsection \<open>The texts\<close>

definition unavailable_message :: string where
  "unavailable_message =
     [CHR 0xF0, CHR 0x9F, CHR 0xA4, CHR 0x96] @
     '' AI analysis unavailable - Please configure your API key in the .env file.''"

text \<open>
  The text of the source with \<^verbatim>\<open>.format(len(study_data))\<close> applied: \<open>n\<close> fills the one
  \<^verbatim>\<open>{}\<close>.
\<close>

definition getting_started_message :: "nat \<Rightarrow> string" where
  "getting_started_message n =
     [CHR 0xF0, CHR 0x9F, CHR 0x9A, CHR 0x80] @ '' **Getting Started with AI Analysis**'' @ [CHR 0x0A] @
     [CHR 0x0A] @
     ''Welcome to your AI Learning Coach! I'm here to help you optimize your academic performance.'' @ [CHR 0x0A] @
     [CHR 0x0A] @
     ''**Current Status:** You have '' @ str_nat n @ '' study session(s) logged. To provide meaningful insights, I recommend logging at least 5-10 study sessions along with some wellness data.'' @ [CHR 0x0A] @
     [CHR 0x0A] @
     ''**Quick Tips to Get Started:**'' @ [CHR 0x0A] @
     [CHR 0xE2, CHR 0x80, CHR 0xA2] @ '' Log your study sessions with honest focus ratings'' @ [CHR 0x0A] @
     [CHR 0xE2, CHR 0x80, CHR 0xA2] @ '' Track your sleep and stress levels in the wellness section'' @ [CHR 0x0A] @
     [CHR 0xE2, CHR 0x80, CHR 0xA2] @ '' Record any test scores or assignment grades'' @ [CHR 0x0A] @
     [CHR 0xE2, CHR 0x80, CHR 0xA2] @ '' Be consistent - even 5 minutes of logging can reveal patterns!'' @ [CHR 0x0A] @
     [CHR 0x0A] @
     ''**What I'll Analyze Once You Have More Data:**'' @ [CHR 0x0A] @
     [CHR 0xE2, CHR 0x9C, CHR 0xA8] @ '' Peak performance times and optimal study durations'' @ [CHR 0x0A] @
     [CHR 0xF0, CHR 0x9F, CHR 0x93, CHR 0x8A] @ '' Correlations between sleep, stress, and focus'' @ [CHR 0x0A] @
     [CHR 0xF0, CHR 0x9F, CHR 0x93, CHR 0x9A] @ '' Which subjects and study methods work best for you'' @ [CHR 0x0A] @
     [CHR 0xF0, CHR 0x9F, CHR 0x8E, CHR 0xAF] @ '' Personalized recommendations for improvement'' @ [CHR 0x0A] @
     [CHR 0x0A] @
     ''Keep logging your data - I'll be ready with insights soon! '' @ [CHR 0xF0, CHR 0x9F, CHR 0x8E, CHR 0x93]"

text \<open>
  The text of the handler, \<open>detail\<close> being \<^verbatim>\<open>str(e)\<close>.
\<close>

definition error_message :: "string \<Rightarrow> string" where
  "error_message detail =
     [CHR 0xF0, CHR 0x9F, CHR 0xA4, CHR 0x96] @ '' **AI Analysis Temporarily Unavailable**'' @ [CHR 0x0A] @
     [CHR 0x0A] @
     ''I'm having trouble analyzing your data right now, but don't worry! Here are some general insights while I get back online:'' @ [CHR 0x0A] @
     [CHR 0x0A] @
     ''**Keep These Habits Strong:**'' @ [CHR 0x0A] @
     [CHR 0xE2, CHR 0x80, CHR 0xA2] @ '' Maintain consistent study sessions'' @ [CHR 0x0A] @
     [CHR 0xE2, CHR 0x80, CHR 0xA2] @ '' Track your focus and energy levels honestly  '' @ [CHR 0x0A] @
     [CHR 0xE2, CHR 0x80, CHR 0xA2] @ '' Log your wellness data regularly'' @ [CHR 0x0A] @
     [CHR 0x0A] @
     ''**Try This Week:**'' @ [CHR 0x0A] @
     [CHR 0xE2, CHR 0x80, CHR 0xA2] @ '' Experiment with different study times to find your peak hours'' @ [CHR 0x0A] @
     [CHR 0xE2, CHR 0x80, CHR 0xA2] @ '' Notice how sleep affects your focus ratings'' @ [CHR 0x0A] @
     [CHR 0xE2, CHR 0x80, CHR 0xA2] @ '' Test different study methods and see what works'' @ [CHR 0x0A] @
     [CHR 0x0A] @
     ''Error details: '' @ detail @ [CHR 0x0A] @
     [CHR 0x0A] @
     ''Try refreshing the page in a few minutes! '' @ [CHR 0xF0, CHR 0x9F, CHR 0x94, CHR 0x84]"

text \<open>
  The dict \<^verbatim>\<open>data_summary\<close> and the prompt around its JSON text. \<^verbatim>\<open>json.dumps\<close> is
  Python's; the model takes the text it gives as the argument \<open>json_text\<close>.
\<close>

record data_summary =
  sum_stats :: stats_row
  sum_study_sessions :: "study_data_row list"
  sum_performance_records :: "performance_data_row list"
  sum_wellness_data :: "wellness_data_row list"

definition prompt_text :: "string \<Rightarrow> string" where
  "prompt_text json_text =
     [CHR 0x0A] @
     ''        You are an expert AI learning coach analyzing a student's academic performance data. Be encouraging, specific, and actionable.'' @ [CHR 0x0A] @
     [CHR 0x0A] @
     ''        Student Data Analysis:'' @ [CHR 0x0A] @
     ''        '' @ json_text @ [CHR 0x0A] @
     [CHR 0x0A] @
     ''        Provide insights in this format:'' @ [CHR 0x0A] @
     [CHR 0x0A] @
     ''        **'' @ [CHR 0xF0, CHR 0x9F, CHR 0x8E, CHR 0xAF] @ '' KEY PATTERNS DISCOVERED**'' @ [CHR 0x0A] @
     ''        [Identify 2-3 most important patterns in their data]'' @ [CHR 0x0A] @
     [CHR 0x0A] @
     ''        **'' @ [CHR 0xF0, CHR 0x9F, CHR 0x93, CHR 0x8A] @ '' PERFORMANCE CORRELATIONS** '' @ [CHR 0x0A] @
     ''        [Correlations between wellness factors and academic performance]'' @ [CHR 0x0A] @
     [CHR 0x0A] @
     ''        **'' @ [CHR 0xF0, CHR 0x9F, CHR 0x92, CHR 0xAA] @ '' YOUR STRENGTHS**'' @ [CHR 0x0A] @
     ''        [What they're doing well - be specific with data]'' @ [CHR 0x0A] @
     [CHR 0x0A] @
     ''        **'' @ [CHR 0xF0, CHR 0x9F, CHR 0x9A, CHR 0x80] @ '' OPTIMIZATION OPPORTUNITIES**'' @ [CHR 0x0A] @
     ''        [Specific, actionable recommendations]'' @ [CHR 0x0A] @
     [CHR 0x0A] @
     ''        **'' @ [CHR 0xF0, CHR 0x9F, CHR 0x93, CHR 0x85] @ '' NEXT STEPS**'' @ [CHR 0x0A] @
     ''        [Concrete actions they can take this week]'' @ [CHR 0x0A] @
     [CHR 0x0A] @
     ''        Keep response under 400 words. Use data points and be encouraging. Include emojis for engagement.'' @ [CHR 0x0A] @
     ''        ''"

subsection \<open>The function\<close>

text \<open>
  The configured service: \<^verbatim>\<open>model.generate_content(prompt)\<close> followed by \<^verbatim>\<open>.text\<close>, which
  gives a text or raises. The global \<^verbatim>\<open>model\<close> is \<open>None\<close> when no key is configured.
\<close>

type_synonym service = "string \<Rightarrow> error + string"

definition ai_statements :: "statement list" where
  "ai_statements =
     [Connect, Select_study_data, Select_performance_data, Select_wellness_data, Select_stats]"

definition ai_reads ::
  "datastore \<Rightarrow>
   error + (study_data_row list \<times> performance_data_row list \<times> wellness_data_row list \<times> stats_row)"
  where
  "ai_reads ds =
     bindE (get_db_connection ds) (\<lambda>conn.
     bindE (execute conn Select_study_data
              (study_data_query (DATE conn) (TIME conn) (study_sessions conn))) (\<lambda>study_data.
     bindE (execute conn Select_performance_data
              (performance_data_query (performance_records conn))) (\<lambda>performance_data.
     bindE (execute conn Select_wellness_data
              (wellness_data_query (DATE conn) (wellness_tracking conn))) (\<lambda>wellness_data.
     bindE (execute conn Select_stats (stats_query (study_sessions conn))) (\<lambda>stats.
     Inr (study_data, performance_data, wellness_data, stats))))))"

text \<open>
  The body of the \<^verbatim>\<open>try\<close>. Beside its result it gives the prompts sent to the service,
  in order: the empty list when the service was not called. The row \<^verbatim>\<open>stats\<close> has four
  columns and so counts as true: \<^verbatim>\<open>dict(stats) if stats else {}\<close> is \<^verbatim>\<open>dict(stats)\<close>.
\<close>

definition ai_try ::
  "(data_summary \<Rightarrow> string) \<Rightarrow> service \<Rightarrow> datastore \<Rightarrow> (error + string) \<times> string list" where
  "ai_try json_dumps model ds =
     (case ai_reads ds of
        Inl e \<Rightarrow> (Inl e, [])
      | Inr (study_data, performance_data, wellness_data, stats) \<Rightarrow>
          if length study_data < 3 then
            (Inr (getting_started_message (length study_data)), [])
          else
            (let data_summary = \<lparr>sum_stats = stats, sum_study_sessions = study_data,
                                  sum_performance_records = performance_data,
                                  sum_wellness_data = wellness_data\<rparr>;
                 prompt = prompt_text (json_dumps data_summary)
             in (model prompt, [prompt])))"

text \<open>
  The function: the guard on the global, then the \<^verbatim>\<open>try\<close> with its
  \<^verbatim>\<open>except Exception as e\<close>, which turns every exception of the body into the text of
  the handler.
\<close>

definition get_ai_insights ::
  "(data_summary \<Rightarrow> string) \<Rightarrow> service option \<Rightarrow> datastore \<Rightarrow> (error + string) \<times> string list"
  where
  "get_ai_insights json_dumps model ds =
     (case model of
        None \<Rightarrow> (Inr unavailable_message, [])
      | Some m \<Rightarrow>
          (case ai_try json_dumps m ds of
             (Inl e, sent) \<Rightarrow> (Inr (error_message (str_error e)), sent)
           | (Inr text, sent) \<Rightarrow> (Inr text, sent)))"

text \<open>
  The prompt the function builds from a store whose reads succeed.
\<close>

definition ai_prompt :: "(data_summary \<Rightarrow> string) \<Rightarrow> datastore \<Rightarrow> string" where
  "ai_prompt json_dumps ds =
     prompt_text (json_dumps
       \<lparr>sum_stats = stats_query (study_sessions ds),
        sum_study_sessions = study_data_query (DATE ds) (TIME ds) (study_sessions ds),
        sum_performance_records = performance_data_query (performance_records ds),
        sum_wellness_data = wellness_data_query (DATE ds) (wellness_tracking ds)\<rparr>)"

section \<open>The specification's reading of the sleep query\<close>

text \<open>
  The specification's sentence on \<^verbatim>\<open>sleepFocusCorrelation\<close>, taken at its word: the joined
  rows are grouped by the calendar date they match on, and a date with at least 2 of them
  gives one row, with the sleep hours and the stress level of that date's wellness entry.
\<close>

definition match_date ::
  "(string \<Rightarrow> string option) \<Rightarrow> wellness_entry \<times> study_session \<Rightarrow> string option" where
  "match_date date_fn j = date_fn (w_date (fst j))"

definition sleepFocusCorrelation_by_date ::
  "(string \<Rightarrow> string option) \<Rightarrow> wellness_entry list \<Rightarrow> study_session list \<Rightarrow>
   wellness_study_correlation_row list" where
  "sleepFocusCorrelation_by_date date_fn ws ss =
     (let joined = joined_on_date date_fn ws ss
      in map (\<lambda>d. let grp = [j \<leftarrow> joined. match_date date_fn j = d]
                  in \<lparr>wc_sleep_hours = w_sleep_hours (fst (hd grp)),
                      wc_stress_level = w_stress_level (fst (hd grp)),
                      wc_avg_focus = AVG (map (\<lambda>j. real_of_int (s_focus_rating (snd j))) grp)\<rparr>)
           (filter (\<lambda>d. 2 \<le> length [j \<leftarrow> joined. match_date date_fn j = d])
              (group_keys (match_date date_fn) joined)))"

section \<open>Example stores\<close>

text \<open>
  DATE and TIME on the texts the application stores: the first ten characters of
  \<^verbatim>\<open>YYYY-MM-DD\<close> or \<^verbatim>\<open>YYYY-MM-DD HH:MM:SS\<close>, and \<^verbatim>\<open>HH:MM\<close> with its seconds.
\<close>

definition iso_date :: "string \<Rightarrow> string option" where
  "iso_date t = (if 10 \<le> length t then Some (take 10 t) else None)"

definition iso_time :: "string \<Rightarrow> string option" where
  "iso_time t = (if length t = 5 then Some (t @ '':00'') else None)"

definition session :: "int \<Rightarrow> string \<Rightarrow> int \<Rightarrow> int \<Rightarrow> string \<Rightarrow> study_session" where
  "session i subj minutes focus created =
     \<lparr>s_id = i, s_subject = subj, s_duration = minutes, s_start_time = ''09:00'',
      s_end_time = ''10:00'', s_study_method = ''reading'', s_difficulty_level = 3,
      s_focus_rating = focus, s_notes = [], s_created_at = created\<rparr>"

definition wellness :: "int \<Rightarrow> string \<Rightarrow> real \<Rightarrow> int \<Rightarrow> wellness_entry" where
  "wellness i d sleep stress =
     \<lparr>w_id = i, w_date = d, w_sleep_hours = sleep, w_stress_level = stress, w_mood_rating = 3,
      w_exercise_minutes = 0, w_caffeine_intake = 0, w_notes = [],
      w_created_at = d @ '' 08:00:00''\<rparr>"

definition store ::
  "study_session list \<Rightarrow> wellness_entry list \<Rightarrow> (statement \<Rightarrow> error option) \<Rightarrow> datastore" where
  "store ss ws f =
     \<lparr>study_sessions = ss, performance_records = [], wellness_tracking = ws,
      DATE = iso_date, TIME = iso_time, failure = f\<rparr>"

definition no_failure :: "statement \<Rightarrow> error option" where
  "no_failure st = None"

text \<open>
  Five sessions on three subjects: ratings 4 and 5 have the average durations 40 and 60,
  Maths and Physics have two sessions each, Art has one.
\<close>

definition example_sessions :: "study_session list" where
  "example_sessions =
     [session 1 ''Physics'' 30 2 ''2024-05-01 09:00:00'',
      session 2 ''Maths'' 40 4 ''2024-05-01 11:00:00'',
      session 3 ''Art'' 70 5 ''2024-05-02 09:00:00'',
      session 4 ''Maths'' 50 5 ''2024-05-02 11:00:00'',
      session 5 ''Physics'' 50 3 ''2024-05-03 09:00:00'']"

definition example_wellness :: "wellness_entry list" where
  "example_wellness = [wellness 1 ''2024-05-01'' 8 2, wellness 2 ''2024-05-02'' 6 4]"

text \<open>
  Two sessions of one subject, with a low focus.
\<close>

definition physics_sessions :: "study_session list" where
  "physics_sessions =
     [session 1 ''Physics'' 30 1 ''2024-05-01 09:00:00'',
      session 2 ''Physics'' 50 2 ''2024-05-03 09:00:00'']"

text \<open>
  Two sessions of one subject whose minutes, \<open>2 ^ 62\<close> each, add up to \<open>2 ^ 63\<close>.
\<close>

definition long_sessions :: "study_session list" where
  "long_sessions =
     [session 1 ''Maths'' 4611686018427387904 4 ''2024-05-01 09:00:00'',
      session 2 ''Maths'' 4611686018427387904 5 ''2024-05-02 09:00:00'']"

text \<open>
  Two days, one session on each, and the same sleep hours and stress level on both.
\<close>

definition two_day_sessions :: "study_session list" where
  "two_day_sessions =
     [session 1 ''Maths'' 40 5 ''2024-05-01 09:00:00'',
      session 2 ''Maths'' 40 1 ''2024-05-02 09:00:00'']"

definition two_day_wellness :: "wellness_entry list" where
  "two_day_wellness = [wellness 1 ''2024-05-01'' 8 2, wellness 2 ''2024-05-02'' 8 2]"

text \<open>
  A service that is out of quota, one that answers, a store whose file cannot be opened,
  and a stand-in for \<^verbatim>\<open>json.dumps\<close>.
\<close>

definition failing_service :: service where
  "failing_service prompt = Inl (ServiceError ''429 quota exceeded'')"

definition answering_service :: service where
  "answering_service prompt = Inr ''Well done.''"

definition no_connection :: "statement \<Rightarrow> error option" where
  "no_connection st = (if st = Connect then Some (StoreError ''unable to open database file'') else None)"

definition json_stand_in :: "data_summary \<Rightarrow> string" where
  "json_stand_in d = ''{}''"

section \<open>Properties\<close>

subsection \<open>Lemmas on the queries\<close>

lemma set_order_by_desc: "set (order_by_desc k rows) = set rows"
  by (simp add: order_by_desc_def)

lemma length_order_by_desc: "length (order_by_desc k rows) = length rows"
  by (simp add: order_by_desc_def)

lemma distinct_map_insort_key:
  "distinct (map f (insort_key k x xs)) = (f x \<notin> f ` set xs \<and> distinct (map f xs))"
  by (induction xs) (auto simp: set_insort_key)

lemma distinct_map_sort_key: "distinct (map f (sort_key k xs)) = distinct (map f xs)"
  by (induction xs) (auto simp: distinct_map_insort_key)

lemma distinct_map_order_by_desc:
  "distinct (map f (order_by_desc k rows)) = distinct (map f rows)"
  by (simp add: order_by_desc_def rev_map [symmetric] distinct_map_sort_key del: rev_map)

lemma sorted_order_by_desc:
  "sorted_wrt (\<lambda>a b. k b \<le> k a) (order_by_desc k rows)"
proof -
  have "sorted (map k (sort_key k rows))" by simp
  then have "sorted_wrt (\<lambda>a b. k a \<le> k b) (sort_key k rows)"
    by (simp add: sorted_map)
  then show ?thesis
    unfolding order_by_desc_def by (simp add: sorted_wrt_rev)
qed

lemma distinct_group_keys: "distinct (group_keys k rows)"
  by (simp add: group_keys_def)

lemma set_group_keys: "set (group_keys k rows) = k ` set rows"
  by (simp add: group_keys_def)

lemma sp_subject_subject_group: "sp_subject (subject_group ss g) = g"
  by (simp add: subject_group_def Let_def)

lemma sp_session_count_subject_group:
  "sp_session_count (subject_group ss g) = length [s \<leftarrow> ss. s_subject s = g]"
  by (simp add: subject_group_def Let_def)

lemma filter_nonempty_key: "2 \<le> length [s \<leftarrow> ss. k s = g] \<Longrightarrow> g \<in> k ` set ss"
proof -
  assume "2 \<le> length [s \<leftarrow> ss. k s = g]"
  then have "[s \<leftarrow> ss. k s = g] \<noteq> []" by auto
  then obtain s where "s \<in> set [s \<leftarrow> ss. k s = g]" by (meson last_in_set)
  then show ?thesis by auto
qed

lemma set_subject_performance_query:
  "set (subject_performance_query ss) =
     {subject_group ss g | g. 2 \<le> length [s \<leftarrow> ss. s_subject s = g]}"
  unfolding subject_performance_query_def set_order_by_desc
  by (auto simp: set_group_keys sp_session_count_subject_group dest: filter_nonempty_key)

lemma distinct_subject_performance_query:
  "distinct (map sp_subject (subject_performance_query ss))"
proof -
  have "distinct (map sp_subject (map (subject_group ss) (group_keys s_subject ss)))"
    by (simp add: o_def sp_subject_subject_group distinct_group_keys)
  then have "distinct (map sp_subject (filter (\<lambda>row. 2 \<le> sp_session_count row)
                (map (subject_group ss) (group_keys s_subject ss))))"
    by (rule distinct_map_filter)
  then show ?thesis
    by (simp add: subject_performance_query_def distinct_map_order_by_desc)
qed




lemma product_Nil_right: "List.product xs [] = []"
  by (induction xs) simp_all

lemma queries_on_no_rows:
  "focus_data_query [] = []"
  "subject_performance_query [] = []"
  "wellness_study_correlation_query d ws [] = []"
  "wellness_study_correlation_query d [] ss = []"
  by (simp_all add: focus_data_query_def subject_performance_query_def
        wellness_study_correlation_query_def joined_on_date_def group_keys_def order_by_def
        order_by_desc_def product_Nil_right)

lemma analysed_nothing: "analysed [] [] [] = []"
  by (simp add: analysed_def analyze_focus_def analyze_subjects_def analyze_wellness_def)





lemma set_joined_on_date:
  "((w, s) \<in> set (joined_on_date date_fn ws ss)) =
   (w \<in> set ws \<and> s \<in> set ss \<and>
    (\<exists>d. date_fn (w_date w) = Some d \<and> date_fn (s_created_at s) = Some d))"
proof -
  have "sql_eq a b = (\<exists>d. a = Some d \<and> b = Some d)" for a b :: "string option"
    by (cases a; cases b) auto
  then show ?thesis by (auto simp: joined_on_date_def)
qed

subsection \<open>Lemmas on the findings\<close>

lemma type_findings [simp]:
  "type (high_focus_finding a) = ''positive''"
  "type (top_subject_finding r) = ''insight''"
  "type (struggling_subject_finding r) = ''warning''"
  "type (sleep_focus_finding a) = ''insight''"
  "type getting_started_finding = ''info''"
  by (simp_all add: high_focus_finding_def top_subject_finding_def struggling_subject_finding_def
        sleep_focus_finding_def getting_started_finding_def)

lemma analyze_focus_append: "analyze_focus fd found = found @ analyze_focus fd []"
  by (simp add: analyze_focus_def Let_def)

lemma analyze_subjects_append: "analyze_subjects sp found = found @ analyze_subjects sp []"
  by (simp add: analyze_subjects_def Let_def)

lemma analyze_wellness_append: "analyze_wellness wc found = found @ analyze_wellness wc []"
  by (simp add: analyze_wellness_def Let_def)

lemma analysed_parts:
  "analysed fd sp wc = analyze_focus fd [] @ analyze_subjects sp [] @ analyze_wellness wc []"
  unfolding analysed_def
  by (subst analyze_wellness_append, subst analyze_subjects_append) simp

lemma analyze_focus_Nil:
  "analyze_focus fd [] =
     (if [row \<leftarrow> fd. 4 \<le> fd_focus_rating row] = [] then []
      else [high_focus_finding (sum_list (map fd_avg_duration [row \<leftarrow> fd. 4 \<le> fd_focus_rating row])
                                / real (length [row \<leftarrow> fd. 4 \<le> fd_focus_rating row]))])"
  by (cases fd) (simp_all add: analyze_focus_def Let_def)

lemma analyze_subjects_Nil:
  "analyze_subjects sp [] =
     (if sp = [] then []
      else if 1 < length sp \<and> sp_avg_focus (last sp) < 3
           then [top_subject_finding (hd sp), struggling_subject_finding (last sp)]
           else [top_subject_finding (hd sp)])"
  by (simp add: analyze_subjects_def Let_def)

lemma analyze_wellness_Nil:
  "analyze_wellness wc [] =
     (if [row \<leftarrow> wc. 7 \<le> wc_sleep_hours row] = [] then []
      else [sleep_focus_finding (sum_list (map wc_avg_focus [row \<leftarrow> wc. 7 \<le> wc_sleep_hours row])
                                 / real (length [row \<leftarrow> wc. 7 \<le> wc_sleep_hours row]))])"
  by (cases wc) (simp_all add: analyze_wellness_def Let_def)

lemma findings_cases:
  "findings fd sp wc = (if analysed fd sp wc = [] then [getting_started_finding] else analysed fd sp wc)"
  by (simp add: findings_def if_no_patterns_def)

lemma no_info_in_analysed: "f \<in> set (analysed fd sp wc) \<Longrightarrow> type f \<noteq> ''info''"
  by (auto simp: analysed_parts analyze_focus_Nil analyze_subjects_Nil analyze_wellness_Nil
           split: if_splits)




lemma patterns_first_failure:
  "patterns ds =
     (case first_failure ds patterns_statements of
        Some e \<Rightarrow> Inl e
      | None \<Rightarrow> Inr (findings (focus_data_query (study_sessions ds))
                      (subject_performance_query (study_sessions ds))
                      (wellness_study_correlation_query (DATE ds) (wellness_tracking ds)
                         (study_sessions ds))))"
  by (simp add: patterns_def patterns_statements_def get_db_connection_def execute_def bindE_def
        split: option.splits)

lemma patterns_no_failure:
  "first_failure ds patterns_statements = None \<Longrightarrow>
   patterns ds = Inr (findings (focus_data_query (study_sessions ds))
                      (subject_performance_query (study_sessions ds))
                      (wellness_study_correlation_query (DATE ds) (wellness_tracking ds)
                         (study_sessions ds)))"
  by (simp add: patterns_first_failure)

lemma statement_failure_no_failure:
  "statement_failure (store ss ws no_failure) st =
     (if st = Select_subject_performance \<and> subject_total_overflows ss
      then Some (StoreError ''integer overflow'') else None)"
  by (simp add: statement_failure_def store_def no_failure_def)

lemma first_failure_no_failure:
  "\<not> subject_total_overflows ss \<Longrightarrow> first_failure (store ss ws no_failure) sts = None"
  by (induction sts) (simp_all add: statement_failure_no_failure)

lemma SUM_overflows_sum_list:
  "\<not> SUM_overflows acc xs \<Longrightarrow> int64 acc \<Longrightarrow> int64 (acc + sum_list xs)"
proof (induction xs arbitrary: acc)
  case Nil
  then show ?case by simp
next
  case (Cons x xs)
  from Cons.prems have a: "int64 (acc + x)" and b: "\<not> SUM_overflows (acc + x) xs"
    by (simp_all split: if_splits)
  from Cons.IH [OF b a] show ?case by (simp add: add.assoc)
qed

lemma subject_total_in_range:
  assumes "\<not> subject_total_overflows ss" and "g \<in> s_subject ` set ss"
  shows "int64 (sum_list (map s_duration [s \<leftarrow> ss. s_subject s = g]))"
proof -
  from assms have "\<not> SUM_overflows 0 (map s_duration [s \<leftarrow> ss. s_subject s = g])"
    by (auto simp: subject_total_overflows_def set_group_keys)
  moreover have "int64 0" by (simp add: int64_def)
  ultimately show ?thesis using SUM_overflows_sum_list by fastforce
qed

subsection \<open>The examples, evaluated\<close>

lemma example_subject_performance:
  "subject_performance_query example_sessions =
     [\<lparr>sp_subject = ''Maths'', sp_avg_focus = 9 / 2, sp_session_count = 2, sp_total_minutes = 90\<rparr>,
      \<lparr>sp_subject = ''Physics'', sp_avg_focus = 5 / 2, sp_session_count = 2, sp_total_minutes = 80\<rparr>]"
  by (simp add: example_sessions_def subject_performance_query_def group_keys_def order_by_desc_def
        subject_group_def AVG_def session_def Let_def)


lemma physics_subject_performance:
  "subject_performance_query physics_sessions =
     [\<lparr>sp_subject = ''Physics'', sp_avg_focus = 3 / 2, sp_session_count = 2, sp_total_minutes = 80\<rparr>]"
  by (simp add: physics_sessions_def subject_performance_query_def group_keys_def order_by_desc_def
        subject_group_def AVG_def session_def Let_def)

lemma physics_focus_data:
  "focus_data_query physics_sessions =
     [\<lparr>fd_focus_rating = 1, fd_avg_duration = 30\<rparr>, \<lparr>fd_focus_rating = 2, fd_avg_duration = 50\<rparr>]"
  by (simp add: physics_sessions_def focus_data_query_def group_keys_def order_by_def
        AVG_def session_def Let_def)

lemma example_no_overflow: "\<not> subject_total_overflows example_sessions"
  by (simp add: subject_total_overflows_def example_sessions_def group_keys_def session_def
        int64_def)

lemma physics_no_overflow: "\<not> subject_total_overflows physics_sessions"
  by (simp add: subject_total_overflows_def physics_sessions_def group_keys_def session_def
        int64_def)

lemma empty_no_overflow: "\<not> subject_total_overflows []"
  by (simp add: subject_total_overflows_def group_keys_def)

lemma long_overflow: "subject_total_overflows long_sessions"
  by (simp add: subject_total_overflows_def long_sessions_def group_keys_def session_def
        int64_def)

lemma example_store_answers: "first_failure (store example_sessions ws no_failure) sts = None"
  by (rule first_failure_no_failure [OF example_no_overflow])

lemma physics_store_answers: "first_failure (store physics_sessions ws no_failure) sts = None"
  by (rule first_failure_no_failure [OF physics_no_overflow])

lemma empty_store_answers: "first_failure (store [] ws no_failure) sts = None"
  by (rule first_failure_no_failure [OF empty_no_overflow])


lemma physics_patterns:
  "patterns (store physics_sessions [] no_failure) =
     Inr [top_subject_finding \<lparr>sp_subject = ''Physics'', sp_avg_focus = 3 / 2, sp_session_count = 2, sp_total_minutes = 80\<rparr>]"
  by (simp add: patterns_no_failure physics_store_answers)
     (simp add: store_def physics_subject_performance physics_focus_data queries_on_no_rows
        findings_cases analysed_parts analyze_focus_Nil analyze_subjects_Nil analyze_wellness_Nil)


lemma two_day_joined:
  "joined_on_date iso_date two_day_wellness two_day_sessions =
     [(wellness 1 ''2024-05-01'' 8 2, session 1 ''Maths'' 40 5 ''2024-05-01 09:00:00''),
      (wellness 2 ''2024-05-02'' 8 2, session 2 ''Maths'' 40 1 ''2024-05-02 09:00:00'')]"
  by (simp add: joined_on_date_def two_day_wellness_def two_day_sessions_def iso_date_def
        wellness_def session_def)

lemma example_joined:
  "joined_on_date iso_date example_wellness example_sessions =
     [(wellness 1 ''2024-05-01'' 8 2, session 1 ''Physics'' 30 2 ''2024-05-01 09:00:00''),
      (wellness 1 ''2024-05-01'' 8 2, session 2 ''Maths'' 40 4 ''2024-05-01 11:00:00''),
      (wellness 2 ''2024-05-02'' 6 4, session 3 ''Art'' 70 5 ''2024-05-02 09:00:00''),
      (wellness 2 ''2024-05-02'' 6 4, session 4 ''Maths'' 50 5 ''2024-05-02 11:00:00'')]"
  by (simp add: joined_on_date_def example_wellness_def example_sessions_def iso_date_def
        wellness_def session_def)

lemma example_correlation:
  "wellness_study_correlation_query iso_date example_wellness example_sessions =
     [\<lparr>wc_sleep_hours = 8, wc_stress_level = 2, wc_avg_focus = 3\<rparr>,
      \<lparr>wc_sleep_hours = 6, wc_stress_level = 4, wc_avg_focus = 5\<rparr>]"
  by (simp add: wellness_study_correlation_query_def example_joined group_keys_def
          sleep_stress_def AVG_def Let_def)
     (simp add: wellness_def session_def)

subsection \<open>The derived percentage\<close>

text \<open>
  C10. The percentage of a PerformanceRecord divides by \<open>max_score\<close> with no guard: it
  returns a value exactly when \<open>max_score\<close> is not zero, that value being the rounded
  \<open>100 * score / max_score\<close>, and for \<open>max_score = 0\<close> it raises a division-by-zero error
  instead of returning.
\<close>

theorem percentage_defined_iff_max_score_nonzero:
  "(max_score r \<noteq> 0 \<longrightarrow> percentage r = Inr (py_round ((score r / max_score r) * 100) 1)) \<and>
   (max_score r = 0 \<longrightarrow> percentage r = Inl (ZeroDivisionError ''float division by zero'')) \<and>
   ((\<exists>v. percentage r = Inr v) \<longleftrightarrow> max_score r \<noteq> 0)"
  by (simp add: percentage_def)

theorem percentage_defined_iff_max_score_nonzero_witness:
  "percentage \<lparr>record_id = 1, user_id = 1, subject = ''Maths'', assessment_type = ''quiz'',
      score = 0, max_score = 0, date = ''2024-05-01'', topics_covered = None,
      created_at = ''2024-05-01 10:00:00''\<rparr> = Inl (ZeroDivisionError ''float division by zero'') \<and>
   percentage \<lparr>record_id = 2, user_id = 1, subject = ''Maths'', assessment_type = ''quiz'',
      score = 7, max_score = 8, date = ''2024-05-01'', topics_covered = None,
      created_at = ''2024-05-01 10:00:00''\<rparr> = Inr (175 / 2)"
  using percentage_defined_iff_max_score_nonzero
          [of "\<lparr>record_id = 1, user_id = 1, subject = ''Maths'', assessment_type = ''quiz'',
                score = 0, max_score = 0, date = ''2024-05-01'', topics_covered = None,
                created_at = ''2024-05-01 10:00:00''\<rparr>"]
        percentage_defined_iff_max_score_nonzero
          [of "\<lparr>record_id = 2, user_id = 1, subject = ''Maths'', assessment_type = ''quiz'',
                score = 7, max_score = 8, date = ''2024-05-01'', topics_covered = None,
                created_at = ''2024-05-01 10:00:00''\<rparr>"]
  by (simp add: py_round_def round_half_even_def)

subsection \<open>The subject query\<close>

lemma subject_performance_rows:
  "distinct (map sp_subject (subject_performance_query ss)) \<and>
   (\<forall>g. (g \<in> sp_subject ` set (subject_performance_query ss)) =
        (2 \<le> length [s \<leftarrow> ss. s_subject s = g])) \<and>
   (\<forall>row \<in> set (subject_performance_query ss).
      2 \<le> sp_session_count row \<and>
      sp_session_count row = length [s \<leftarrow> ss. s_subject s = sp_subject row] \<and>
      sp_avg_focus row =
        sum_list (map (\<lambda>s. real_of_int (s_focus_rating s)) [s \<leftarrow> ss. s_subject s = sp_subject row])
        / real (length [s \<leftarrow> ss. s_subject s = sp_subject row]) \<and>
      sp_total_minutes row = sum_list (map s_duration [s \<leftarrow> ss. s_subject s = sp_subject row])) \<and>
   sorted_wrt (\<lambda>a b. sp_avg_focus b \<le> sp_avg_focus a) (subject_performance_query ss)"
proof (intro conjI allI ballI)
  show "distinct (map sp_subject (subject_performance_query ss))"
    by (rule distinct_subject_performance_query)
next
  fix g
  show "(g \<in> sp_subject ` set (subject_performance_query ss)) =
        (2 \<le> length [s \<leftarrow> ss. s_subject s = g])"
    unfolding set_subject_performance_query
    by (force simp: sp_subject_subject_group image_iff)
next
  fix row assume "row \<in> set (subject_performance_query ss)"
  then obtain g where g: "row = subject_group ss g" "2 \<le> length [s \<leftarrow> ss. s_subject s = g]"
    unfolding set_subject_performance_query by blast
  show "2 \<le> sp_session_count row" using g by (simp add: subject_group_def Let_def)
  show "sp_session_count row = length [s \<leftarrow> ss. s_subject s = sp_subject row]"
    using g by (simp add: subject_group_def Let_def)
  show "sp_avg_focus row =
        sum_list (map (\<lambda>s. real_of_int (s_focus_rating s)) [s \<leftarrow> ss. s_subject s = sp_subject row])
        / real (length [s \<leftarrow> ss. s_subject s = sp_subject row])"
    using g by (simp add: subject_group_def Let_def AVG_def)
  show "sp_total_minutes row = sum_list (map s_duration [s \<leftarrow> ss. s_subject s = sp_subject row])"
    using g by (simp add: subject_group_def Let_def)
next
  show "sorted_wrt (\<lambda>a b. sp_avg_focus b \<le> sp_avg_focus a) (subject_performance_query ss)"
    unfolding subject_performance_query_def by (rule sorted_order_by_desc)
qed

lemma execute_subject_performance:
  "failure ds Select_subject_performance = None \<Longrightarrow>
   execute ds Select_subject_performance rows =
     (if subject_total_overflows (study_sessions ds) then Inl (StoreError ''integer overflow'')
      else Inr rows)"
  by (simp add: execute_def statement_failure_def)

text \<open>
  C9, as amended. When the store does not fail on the statement: if the total of minutes
  of some subject overflows 64 bits, the subject query raises \<^verbatim>\<open>integer overflow\<close>;
  otherwise it returns one row per subject that has at least 2 sessions and no row for any
  other subject, each row carrying the subject, the mean of its focus ratings, the number
  of its sessions and the sum of its minutes, which is a 64-bit integer, and the rows are
  in descending order of the mean focus rating.
\<close>

theorem subject_performance_summary:
  assumes "failure ds Select_subject_performance = None"
  shows "(subject_total_overflows (study_sessions ds) \<longrightarrow>
            execute ds Select_subject_performance (subject_performance_query (study_sessions ds)) =
              Inl (StoreError ''integer overflow'')) \<and>
         (\<not> subject_total_overflows (study_sessions ds) \<longrightarrow>
            (\<exists>rows.
               execute ds Select_subject_performance (subject_performance_query (study_sessions ds)) =
                 Inr rows \<and>
               distinct (map sp_subject rows) \<and>
               (\<forall>g. (g \<in> sp_subject ` set rows) =
                    (2 \<le> length [s \<leftarrow> study_sessions ds. s_subject s = g])) \<and>
               (\<forall>row \<in> set rows.
                  2 \<le> sp_session_count row \<and>
                  sp_session_count row = length [s \<leftarrow> study_sessions ds. s_subject s = sp_subject row] \<and>
                  sp_avg_focus row =
                    sum_list (map (\<lambda>s. real_of_int (s_focus_rating s))
                                [s \<leftarrow> study_sessions ds. s_subject s = sp_subject row])
                    / real (length [s \<leftarrow> study_sessions ds. s_subject s = sp_subject row]) \<and>
                  sp_total_minutes row =
                    sum_list (map s_duration [s \<leftarrow> study_sessions ds. s_subject s = sp_subject row]) \<and>
                  int64 (sp_total_minutes row)) \<and>
               sorted_wrt (\<lambda>a b. sp_avg_focus b \<le> sp_avg_focus a) rows))"
proof (intro conjI impI)
  assume "subject_total_overflows (study_sessions ds)"
  with assms show "execute ds Select_subject_performance
                     (subject_performance_query (study_sessions ds)) =
                   Inl (StoreError ''integer overflow'')"
    by (simp add: execute_subject_performance)
next
  let ?ss = "study_sessions ds"
  let ?rows = "subject_performance_query ?ss"
  assume ok: "\<not> subject_total_overflows ?ss"
  note r = subject_performance_rows [of ?ss]
  have e: "execute ds Select_subject_performance ?rows = Inr ?rows"
    using assms ok by (simp add: execute_subject_performance)
  have d: "distinct (map sp_subject ?rows)"
    using r by (rule conjunct1)
  have g: "\<forall>g. (g \<in> sp_subject ` set ?rows) = (2 \<le> length [s \<leftarrow> ?ss. s_subject s = g])"
    using r [THEN conjunct2] by (rule conjunct1)
  have s: "sorted_wrt (\<lambda>a b. sp_avg_focus b \<le> sp_avg_focus a) ?rows"
    using r [THEN conjunct2, THEN conjunct2] by (rule conjunct2)
  have a: "\<forall>row \<in> set ?rows.
                  2 \<le> sp_session_count row \<and>
                  sp_session_count row = length [s \<leftarrow> ?ss. s_subject s = sp_subject row] \<and>
                  sp_avg_focus row =
                    sum_list (map (\<lambda>s. real_of_int (s_focus_rating s))
                                [s \<leftarrow> ?ss. s_subject s = sp_subject row])
                    / real (length [s \<leftarrow> ?ss. s_subject s = sp_subject row]) \<and>
                  sp_total_minutes row =
                    sum_list (map s_duration [s \<leftarrow> ?ss. s_subject s = sp_subject row]) \<and>
                  int64 (sp_total_minutes row)"
  proof
    fix row assume row: "row \<in> set ?rows"
    note b = bspec [OF r [THEN conjunct2, THEN conjunct2, THEN conjunct1] row]
    from b have n: "2 \<le> length [s \<leftarrow> ?ss. s_subject s = sp_subject row]" by simp
    then have "sp_subject row \<in> s_subject ` set ?ss" by (rule filter_nonempty_key)
    with ok have "int64 (sum_list (map s_duration [s \<leftarrow> ?ss. s_subject s = sp_subject row]))"
      by (rule subject_total_in_range)
    with b show "2 \<le> sp_session_count row \<and>
                  sp_session_count row = length [s \<leftarrow> ?ss. s_subject s = sp_subject row] \<and>
                  sp_avg_focus row =
                    sum_list (map (\<lambda>s. real_of_int (s_focus_rating s))
                                [s \<leftarrow> ?ss. s_subject s = sp_subject row])
                    / real (length [s \<leftarrow> ?ss. s_subject s = sp_subject row]) \<and>
                  sp_total_minutes row =
                    sum_list (map s_duration [s \<leftarrow> ?ss. s_subject s = sp_subject row]) \<and>
                  int64 (sp_total_minutes row)"
      by simp
  qed
  show "\<exists>rows.
               execute ds Select_subject_performance (subject_performance_query (study_sessions ds)) =
                 Inr rows \<and>
               distinct (map sp_subject rows) \<and>
               (\<forall>g. (g \<in> sp_subject ` set rows) =
                    (2 \<le> length [s \<leftarrow> study_sessions ds. s_subject s = g])) \<and>
               (\<forall>row \<in> set rows.
                  2 \<le> sp_session_count row \<and>
                  sp_session_count row = length [s \<leftarrow> study_sessions ds. s_subject s = sp_subject row] \<and>
                  sp_avg_focus row =
                    sum_list (map (\<lambda>s. real_of_int (s_focus_rating s))
                                [s \<leftarrow> study_sessions ds. s_subject s = sp_subject row])
                    / real (length [s \<leftarrow> study_sessions ds. s_subject s = sp_subject row]) \<and>
                  sp_total_minutes row =
                    sum_list (map s_duration [s \<leftarrow> study_sessions ds. s_subject s = sp_subject row]) \<and>
                  int64 (sp_total_minutes row)) \<and>
               sorted_wrt (\<lambda>a b. sp_avg_focus b \<le> sp_avg_focus a) rows"
    by (rule exI [of _ ?rows]) (intro conjI e d g a s)
qed

theorem subject_performance_summary_witness:
  "failure (store example_sessions [] no_failure) Select_subject_performance = None \<and>
   \<not> subject_total_overflows (study_sessions (store example_sessions [] no_failure)) \<and>
   execute (store example_sessions [] no_failure) Select_subject_performance
       (subject_performance_query (study_sessions (store example_sessions [] no_failure))) =
     Inr [\<lparr>sp_subject = ''Maths'', sp_avg_focus = 9 / 2, sp_session_count = 2, sp_total_minutes = 90\<rparr>,
          \<lparr>sp_subject = ''Physics'', sp_avg_focus = 5 / 2, sp_session_count = 2, sp_total_minutes = 80\<rparr>] \<and>
   length [s \<leftarrow> example_sessions. s_subject s = ''Art''] = 1 \<and>
   failure (store long_sessions [] no_failure) Select_subject_performance = None \<and>
   subject_total_overflows (study_sessions (store long_sessions [] no_failure)) \<and>
   execute (store long_sessions [] no_failure) Select_subject_performance
       (subject_performance_query (study_sessions (store long_sessions [] no_failure))) =
     Inl (StoreError ''integer overflow'')"
proof -
  have f1: "failure (store example_sessions [] no_failure) Select_subject_performance = None"
    by (simp add: store_def no_failure_def)
  have f2: "failure (store long_sessions [] no_failure) Select_subject_performance = None"
    by (simp add: store_def no_failure_def)
  have s1: "study_sessions (store example_sessions [] no_failure) = example_sessions"
    by (simp add: store_def)
  have s2: "study_sessions (store long_sessions [] no_failure) = long_sessions"
    by (simp add: store_def)
  have o1: "\<not> subject_total_overflows (study_sessions (store example_sessions [] no_failure))"
    unfolding s1 by (rule example_no_overflow)
  have o2: "subject_total_overflows (study_sessions (store long_sessions [] no_failure))"
    unfolding s2 by (rule long_overflow)
  from subject_performance_summary [OF f1, THEN conjunct2, rule_format, OF o1]
  obtain rows where
    "execute (store example_sessions [] no_failure) Select_subject_performance
       (subject_performance_query (study_sessions (store example_sessions [] no_failure))) =
     Inr rows"
    by blast
  then have e1: "execute (store example_sessions [] no_failure) Select_subject_performance
       (subject_performance_query (study_sessions (store example_sessions [] no_failure))) =
     Inr [\<lparr>sp_subject = ''Maths'', sp_avg_focus = 9 / 2, sp_session_count = 2, sp_total_minutes = 90\<rparr>,
          \<lparr>sp_subject = ''Physics'', sp_avg_focus = 5 / 2, sp_session_count = 2, sp_total_minutes = 80\<rparr>]"
    using f1 o1 by (simp add: execute_subject_performance s1 example_subject_performance)
  note e2 = subject_performance_summary [OF f2, THEN conjunct1, rule_format, OF o2]
  have art: "length [s \<leftarrow> example_sessions. s_subject s = ''Art''] = 1"
    by (simp add: example_sessions_def session_def)
  show ?thesis
    by (intro conjI f1 o1 e1 art f2 o2 e2)
qed

text \<open>
  C9 as the specification words it fails: two sessions of one subject, each of a duration
  that the column holds, whose total is \<open>2 ^ 63\<close>. The subject has 2 sessions, and the
  query raises instead of returning its row; so does \<^verbatim>\<open>patterns\<close>.
\<close>

theorem subject_performance_overflow_raises:
  "map s_duration long_sessions = [4611686018427387904, 4611686018427387904] \<and>
   int64 4611686018427387904 \<and>
   length [s \<leftarrow> long_sessions. s_subject s = ''Maths''] = 2 \<and>
   failure (store long_sessions [] no_failure) Select_subject_performance = None \<and>
   execute (store long_sessions [] no_failure) Select_subject_performance
       (subject_performance_query (study_sessions (store long_sessions [] no_failure))) =
     Inl (StoreError ''integer overflow'') \<and>
   patterns (store long_sessions [] no_failure) = Inl (StoreError ''integer overflow'')"
proof -
  have d: "map s_duration long_sessions = [4611686018427387904, 4611686018427387904]"
    by (simp add: long_sessions_def session_def)
  have i: "int64 4611686018427387904" by (simp add: int64_def)
  have n: "length [s \<leftarrow> long_sessions. s_subject s = ''Maths''] = 2"
    by (simp add: long_sessions_def session_def)
  have f: "failure (store long_sessions [] no_failure) Select_subject_performance = None"
    by (simp add: store_def no_failure_def)
  have s: "study_sessions (store long_sessions [] no_failure) = long_sessions"
    by (simp add: store_def)
  have e: "execute (store long_sessions [] no_failure) Select_subject_performance
       (subject_performance_query (study_sessions (store long_sessions [] no_failure))) =
     Inl (StoreError ''integer overflow'')"
    using f by (simp add: execute_subject_performance s long_overflow)
  have "first_failure (store long_sessions [] no_failure) patterns_statements =
          Some (StoreError ''integer overflow'')"
    by (simp add: patterns_statements_def statement_failure_no_failure long_overflow)
  then have p: "patterns (store long_sessions [] no_failure) = Inl (StoreError ''integer overflow'')"
    by (simp add: patterns_first_failure)
  show ?thesis by (intro conjI d i n f e p)
qed

subsection \<open>The sleep query\<close>

text \<open>
  C2, as amended. The rows of the sleep query come from the pairs of a wellness entry and
  a study session whose calendar dates are equal. The pairs are grouped by the sleep hours
  and the stress level of the entry, not by the date: there is one row per such pair of
  values that at least 2 joined pairs have, no row for any other, and the row carries the
  mean focus rating of its joined pairs.
\<close>

theorem sleep_focus_correlation_groups:
  "let joined = joined_on_date date_fn ws ss;
       rows = wellness_study_correlation_query date_fn ws ss
   in (\<forall>w s. ((w, s) \<in> set joined) =
              (w \<in> set ws \<and> s \<in> set ss \<and>
               (\<exists>d. date_fn (w_date w) = Some d \<and> date_fn (s_created_at s) = Some d))) \<and>
      distinct (map (\<lambda>r. (wc_sleep_hours r, wc_stress_level r)) rows) \<and>
      (\<forall>g. (g \<in> (\<lambda>r. (wc_sleep_hours r, wc_stress_level r)) ` set rows) =
           (2 \<le> length [j \<leftarrow> joined. (w_sleep_hours (fst j), w_stress_level (fst j)) = g])) \<and>
      (\<forall>r \<in> set rows.
         2 \<le> length [j \<leftarrow> joined. (w_sleep_hours (fst j), w_stress_level (fst j)) =
                                   (wc_sleep_hours r, wc_stress_level r)] \<and>
         wc_avg_focus r =
           sum_list (map (\<lambda>j. real_of_int (s_focus_rating (snd j)))
                       [j \<leftarrow> joined. (w_sleep_hours (fst j), w_stress_level (fst j)) =
                                     (wc_sleep_hours r, wc_stress_level r)])
           / real (length [j \<leftarrow> joined. (w_sleep_hours (fst j), w_stress_level (fst j)) =
                                        (wc_sleep_hours r, wc_stress_level r)]))"
proof -
  let ?joined = "joined_on_date date_fn ws ss"
  let ?rows = "wellness_study_correlation_query date_fn ws ss"
  let ?key = "\<lambda>r. (wc_sleep_hours r, wc_stress_level r)"
  let ?grp = "\<lambda>g. [j \<leftarrow> ?joined. (w_sleep_hours (fst j), w_stress_level (fst j)) = g]"
  let ?mk = "\<lambda>g. \<lparr>wc_sleep_hours = fst g, wc_stress_level = snd g,
                   wc_avg_focus = AVG (map (\<lambda>j. real_of_int (s_focus_rating (snd j))) (?grp g))\<rparr>"
  let ?keys = "filter (\<lambda>g. 2 \<le> length (?grp g)) (group_keys sleep_stress ?joined)"
  have rows: "?rows = map ?mk ?keys"
    by (simp add: wellness_study_correlation_query_def Let_def sleep_stress_def)
  have keys: "map ?key ?rows = ?keys"
    unfolding rows by (simp add: o_def)
  have d: "distinct (map ?key ?rows)"
    unfolding keys by (simp add: distinct_group_keys)
  have in_keys: "(g \<in> set ?keys) = (2 \<le> length (?grp g))" for g
  proof
    assume "g \<in> set ?keys" then show "2 \<le> length (?grp g)" by simp
  next
    assume g: "2 \<le> length (?grp g)"
    then have "g \<in> (\<lambda>j. (w_sleep_hours (fst j), w_stress_level (fst j))) ` set ?joined"
      by (rule filter_nonempty_key)
    then have "g \<in> set (group_keys sleep_stress ?joined)"
      by (simp add: set_group_keys sleep_stress_def [abs_def])
    with g show "g \<in> set ?keys" by simp
  qed
  have ks: "?key ` set ?rows = set ?keys"
    using arg_cong [OF keys, of set] by (simp only: set_map)
  have a: "2 \<le> length (?grp (?key r)) \<and>
         wc_avg_focus r = sum_list (map (\<lambda>j. real_of_int (s_focus_rating (snd j))) (?grp (?key r)))
                          / real (length (?grp (?key r)))" if "r \<in> set ?rows" for r
  proof -
    from that obtain g where g: "g \<in> set ?keys" "r = ?mk g" unfolding rows by auto
    then have "2 \<le> length (?grp g)" by simp
    with g show ?thesis by (simp add: AVG_def)
  qed
  show ?thesis
    unfolding Let_def
  proof (intro conjI allI ballI)
    fix w s
    show "((w, s) \<in> set ?joined) =
              (w \<in> set ws \<and> s \<in> set ss \<and>
               (\<exists>d. date_fn (w_date w) = Some d \<and> date_fn (s_created_at s) = Some d))"
      by (rule set_joined_on_date)
  next
    show "distinct (map ?key ?rows)" by (rule d)
  next
    fix g
    show "(g \<in> ?key ` set ?rows) = (2 \<le> length (?grp g))"
      unfolding ks by (rule in_keys)
  next
    fix r assume "r \<in> set ?rows"
    then show "2 \<le> length (?grp (?key r))" using a by blast
  next
    fix r assume "r \<in> set ?rows"
    then show "wc_avg_focus r =
           sum_list (map (\<lambda>j. real_of_int (s_focus_rating (snd j))) (?grp (?key r)))
           / real (length (?grp (?key r)))" using a by blast
  qed
qed

theorem sleep_focus_correlation_groups_witness:
  "wellness_study_correlation_query iso_date example_wellness example_sessions =
     [\<lparr>wc_sleep_hours = 8, wc_stress_level = 2, wc_avg_focus = 3\<rparr>,
      \<lparr>wc_sleep_hours = 6, wc_stress_level = 4, wc_avg_focus = 5\<rparr>] \<and>
   length (joined_on_date iso_date example_wellness example_sessions) = 4 \<and>
   2 \<le> length [j \<leftarrow> joined_on_date iso_date example_wellness example_sessions.
                (w_sleep_hours (fst j), w_stress_level (fst j)) = (8, 2)] \<and>
   2 \<le> length [j \<leftarrow> joined_on_date iso_date example_wellness example_sessions.
                (w_sleep_hours (fst j), w_stress_level (fst j)) = (6, 4)]"
proof -
  note rows = sleep_focus_correlation_groups
      [of iso_date example_wellness example_sessions, unfolded Let_def,
       THEN conjunct2, THEN conjunct2, THEN conjunct2]
  have r1: "\<lparr>wc_sleep_hours = 8, wc_stress_level = 2, wc_avg_focus = 3\<rparr>
              \<in> set (wellness_study_correlation_query iso_date example_wellness example_sessions)"
    by (simp add: example_correlation)
  have r2: "\<lparr>wc_sleep_hours = 6, wc_stress_level = 4, wc_avg_focus = 5\<rparr>
              \<in> set (wellness_study_correlation_query iso_date example_wellness example_sessions)"
    by (simp add: example_correlation)
  have g1: "2 \<le> length [j \<leftarrow> joined_on_date iso_date example_wellness example_sessions.
                (w_sleep_hours (fst j), w_stress_level (fst j)) = (8, 2)]"
    using bspec [OF rows r1] by simp
  have g2: "2 \<le> length [j \<leftarrow> joined_on_date iso_date example_wellness example_sessions.
                (w_sleep_hours (fst j), w_stress_level (fst j)) = (6, 4)]"
    using bspec [OF rows r2] by simp
  have n: "length (joined_on_date iso_date example_wellness example_sessions) = 4"
    by (simp add: example_joined)
  show ?thesis using example_correlation n g1 g2 by simp
qed

text \<open>
  C2 as the specification words it fails: with one session on each of two days and the
  same sleep hours and stress level on both, the query gives a row, made of two joined
  pairs that match on different dates, where the grouping by date gives none.
\<close>

theorem sleep_focus_correlation_not_by_date:
  "wellness_study_correlation_query iso_date two_day_wellness two_day_sessions =
     [\<lparr>wc_sleep_hours = 8, wc_stress_level = 2, wc_avg_focus = 3\<rparr>] \<and>
   map (match_date iso_date) (joined_on_date iso_date two_day_wellness two_day_sessions) =
     [Some ''2024-05-01'', Some ''2024-05-02''] \<and>
   sleepFocusCorrelation_by_date iso_date two_day_wellness two_day_sessions = [] \<and>
   wellness_study_correlation_query iso_date two_day_wellness two_day_sessions \<noteq>
     sleepFocusCorrelation_by_date iso_date two_day_wellness two_day_sessions"
proof -
  have q: "wellness_study_correlation_query iso_date two_day_wellness two_day_sessions =
     [\<lparr>wc_sleep_hours = 8, wc_stress_level = 2, wc_avg_focus = 3\<rparr>]"
    by (simp add: wellness_study_correlation_query_def two_day_joined group_keys_def
          sleep_stress_def AVG_def Let_def)
       (simp add: wellness_def session_def)
  have m: "map (match_date iso_date) (joined_on_date iso_date two_day_wellness two_day_sessions) =
     [Some ''2024-05-01'', Some ''2024-05-02'']"
    by (simp add: two_day_joined match_date_def wellness_def iso_date_def)
  have s: "sleepFocusCorrelation_by_date iso_date two_day_wellness two_day_sessions = []"
    by (simp add: sleepFocusCorrelation_by_date_def two_day_joined group_keys_def
          match_date_def Let_def)
       (simp add: wellness_def session_def iso_date_def)
  show ?thesis using q m s by simp
qed

subsection \<open>The findings\<close>



text \<open>
  C7. On a store with no study session and no wellness entry, \<^verbatim>\<open>patterns\<close> gives exactly one
  finding, of type info. In general the result is that one finding when the four analysing
  blocks appended nothing, and otherwise the list they built, in which no finding has the
  type info.
\<close>

theorem fallback_finding_iff_nothing_found:
  "(study_sessions ds = [] \<and> wellness_tracking ds = [] \<and>
      first_failure ds patterns_statements = None \<longrightarrow>
    patterns ds = Inr [getting_started_finding]) \<and>
   type getting_started_finding = ''info'' \<and>
   (first_failure ds patterns_statements = None \<longrightarrow>
    (let found = analysed (focus_data_query (study_sessions ds))
                   (subject_performance_query (study_sessions ds))
                   (wellness_study_correlation_query (DATE ds) (wellness_tracking ds)
                      (study_sessions ds))
     in patterns ds = Inr (if found = [] then [getting_started_finding] else found) \<and>
        (\<forall>f \<in> set found. type f \<noteq> ''info'')))"
proof (intro conjI impI)
  assume "study_sessions ds = [] \<and> wellness_tracking ds = [] \<and>
          first_failure ds patterns_statements = None"
  then show "patterns ds = Inr [getting_started_finding]"
    by (simp add: patterns_no_failure queries_on_no_rows findings_cases analysed_nothing)
next
  show "type getting_started_finding = ''info''" by simp
next
  assume "first_failure ds patterns_statements = None"
  then show "let found = analysed (focus_data_query (study_sessions ds))
                   (subject_performance_query (study_sessions ds))
                   (wellness_study_correlation_query (DATE ds) (wellness_tracking ds)
                      (study_sessions ds))
     in patterns ds = Inr (if found = [] then [getting_started_finding] else found) \<and>
        (\<forall>f \<in> set found. type f \<noteq> ''info'')"
    unfolding Let_def
    by (simp add: patterns_no_failure findings_cases no_info_in_analysed)
qed

theorem fallback_finding_iff_nothing_found_witness:
  "study_sessions (store [] [] no_failure) = [] \<and>
   wellness_tracking (store [] [] no_failure) = [] \<and>
   first_failure (store [] [] no_failure) patterns_statements = None \<and>
   patterns (store [] [] no_failure) = Inr [getting_started_finding] \<and>
   type getting_started_finding = ''info'' \<and>
   first_failure (store physics_sessions [] no_failure) patterns_statements = None \<and>
   patterns (store physics_sessions [] no_failure) =
     Inr [top_subject_finding \<lparr>sp_subject = ''Physics'', sp_avg_focus = 3 / 2,
            sp_session_count = 2, sp_total_minutes = 80\<rparr>]"
  using fallback_finding_iff_nothing_found [of "store [] [] no_failure"]
        fallback_finding_iff_nothing_found [of "store physics_sessions [] no_failure"]
  by (simp add: empty_store_answers physics_store_answers physics_patterns)
     (simp add: store_def)



subsection \<open>The insight text\<close>

lemma ai_reads_first_failure:
  "ai_reads ds =
     (case first_failure ds ai_statements of
        Some e \<Rightarrow> Inl e
      | None \<Rightarrow> Inr (study_data_query (DATE ds) (TIME ds) (study_sessions ds),
                     performance_data_query (performance_records ds),
                     wellness_data_query (DATE ds) (wellness_tracking ds),
                     stats_query (study_sessions ds)))"
  by (simp add: ai_reads_def ai_statements_def get_db_connection_def execute_def bindE_def
        split: option.splits)

lemma length_study_data_query:
  "length (study_data_query d t ss) = min (length ss) 20"
  by (simp add: study_data_query_def length_order_by_desc)

lemma ai_try_store_failure:
  "first_failure ds ai_statements = Some e \<Longrightarrow> ai_try json_dumps model ds = (Inl e, [])"
  by (simp add: ai_try_def ai_reads_first_failure)

lemma ai_try_few_sessions:
  "first_failure ds ai_statements = None \<Longrightarrow> length (study_sessions ds) < 3 \<Longrightarrow>
   ai_try json_dumps model ds = (Inr (getting_started_message (length (study_sessions ds))), [])"
  by (simp add: ai_try_def ai_reads_first_failure length_study_data_query)

lemma ai_try_service:
  "first_failure ds ai_statements = None \<Longrightarrow> 3 \<le> length (study_sessions ds) \<Longrightarrow>
   ai_try json_dumps model ds = (model (ai_prompt json_dumps ds), [ai_prompt json_dumps ds])"
  by (simp add: ai_try_def ai_reads_first_failure length_study_data_query ai_prompt_def Let_def)

lemma get_ai_insights_returns:
  "\<exists>text sent. get_ai_insights json_dumps model ds = (Inr text, sent)"
proof (cases model)
  case None
  then show ?thesis by (simp add: get_ai_insights_def)
next
  case (Some m)
  obtain r sent where t: "ai_try json_dumps m ds = (r, sent)" by (cases "ai_try json_dumps m ds")
  show ?thesis using Some t by (cases r) (simp_all add: get_ai_insights_def)
qed

lemma error_message_detail:
  "\<exists>pre suf. error_message detail = pre @ ''Error details: '' @ detail @ suf"
  unfolding error_message_def
  by (metis append.assoc)

lemma getting_started_message_count:
  "\<exists>pre suf. getting_started_message n =
      pre @ ''You have '' @ str_nat n @ '' study session(s) logged'' @ suf"
proof -
  have 1: "''**Current Status:** You have '' = ''**Current Status:** '' @ ''You have ''"
    by simp
  have 2: "'' study session(s) logged. To provide meaningful insights, I recommend logging at least 5-10 study sessions along with some wellness data.'' =
           '' study session(s) logged'' @ ''. To provide meaningful insights, I recommend logging at least 5-10 study sessions along with some wellness data.''"
    by simp
  show ?thesis
    unfolding getting_started_message_def 1 2 by (metis append.assoc)
qed

lemma unavailable_is_not_getting_started: "unavailable_message \<noteq> getting_started_message n"
  by (simp add: unavailable_message_def getting_started_message_def)

lemma first_failure_no_connection:
  "first_failure (store ss ws no_connection) (Connect # sts) =
     Some (StoreError ''unable to open database file'')"
  by (simp add: statement_failure_def store_def no_connection_def)

text \<open>
  C1, as amended. On a store that answers and has fewer than 3 study sessions: with a
  configured service, \<^verbatim>\<open>get_ai_insights\<close> returns the getting-started text, which depends on
  the number of sessions only and names it, and sends nothing to the service; with no
  service configured, it returns the text that the analysis is unavailable, and sends
  nothing either.
\<close>

theorem getting_started_below_three_sessions:
  assumes "length (study_sessions ds) < 3" and "first_failure ds ai_statements = None"
  shows "get_ai_insights json_dumps (Some model) ds =
           (Inr (getting_started_message (length (study_sessions ds))), []) \<and>
         get_ai_insights json_dumps None ds = (Inr unavailable_message, []) \<and>
         (\<exists>pre suf. getting_started_message (length (study_sessions ds)) =
            pre @ ''You have '' @ str_nat (length (study_sessions ds)) @
            '' study session(s) logged'' @ suf)"
proof (intro conjI)
  show "get_ai_insights json_dumps (Some model) ds =
           (Inr (getting_started_message (length (study_sessions ds))), [])"
    using assms by (simp add: get_ai_insights_def ai_try_few_sessions)
  show "get_ai_insights json_dumps None ds = (Inr unavailable_message, [])"
    by (simp add: get_ai_insights_def)
  show "\<exists>pre suf. getting_started_message (length (study_sessions ds)) =
            pre @ ''You have '' @ str_nat (length (study_sessions ds)) @
            '' study session(s) logged'' @ suf"
    by (rule getting_started_message_count)
qed

theorem getting_started_below_three_sessions_witness:
  "length (study_sessions (store physics_sessions [] no_failure)) = 2 \<and>
   first_failure (store physics_sessions [] no_failure) ai_statements = None \<and>
   get_ai_insights json_stand_in (Some answering_service) (store physics_sessions [] no_failure) =
     (Inr (getting_started_message 2), []) \<and>
   get_ai_insights json_stand_in (Some failing_service) (store physics_sessions [] no_failure) =
     (Inr (getting_started_message 2), []) \<and>
   str_nat 2 = ''2''"
proof -
  have n: "length (study_sessions (store physics_sessions [] no_failure)) = 2"
    by (simp add: store_def physics_sessions_def)
  have f: "first_failure (store physics_sessions [] no_failure) ai_statements = None"
    by (rule physics_store_answers)
  have lt: "length (study_sessions (store physics_sessions [] no_failure)) < 3"
    using n by simp
  note a = getting_started_below_three_sessions
             [OF lt f, of json_stand_in answering_service, THEN conjunct1]
  note b = getting_started_below_three_sessions
             [OF lt f, of json_stand_in failing_service, THEN conjunct1]
  have s: "str_nat 2 = ''2''" by (simp add: str_nat.simps digit_char_def)
  show ?thesis using n f a b s by simp
qed

text \<open>
  C1 as the specification words it fails: with 2 sessions and no configured service, the
  result is the text that the analysis is unavailable, not the getting-started text.
\<close>

theorem getting_started_not_without_credential:
  "length (study_sessions (store physics_sessions [] no_failure)) = 2 \<and>
   first_failure (store physics_sessions [] no_failure) ai_statements = None \<and>
   get_ai_insights json_stand_in None (store physics_sessions [] no_failure) =
     (Inr unavailable_message, []) \<and>
   get_ai_insights json_stand_in None (store physics_sessions [] no_failure) \<noteq>
     (Inr (getting_started_message 2), [])"
  by (simp add: physics_store_answers get_ai_insights_def unavailable_is_not_getting_started)
     (simp add: store_def physics_sessions_def)

text \<open>
  C4. \<^verbatim>\<open>get_ai_insights\<close> always returns a text and never raises. When the store answers,
  has at least 3 sessions, and the service raises on the prompt, the text returned is the
  fallback text of the handler, which contains \<^verbatim>\<open>str(e)\<close> of the exception after
  \<^verbatim>\<open>Error details:\<close>; the service was sent that one prompt.
\<close>

theorem service_failure_absorbed:
  "(\<exists>text sent. get_ai_insights json_dumps model ds = (Inr text, sent)) \<and>
   (first_failure ds ai_statements = None \<and> 3 \<le> length (study_sessions ds) \<and>
    service (ai_prompt json_dumps ds) = Inl e \<longrightarrow>
    get_ai_insights json_dumps (Some service) ds =
      (Inr (error_message (str_error e)), [ai_prompt json_dumps ds]) \<and>
    (\<exists>pre suf. error_message (str_error e) = pre @ ''Error details: '' @ str_error e @ suf))"
proof (intro conjI impI)
  show "\<exists>text sent. get_ai_insights json_dumps model ds = (Inr text, sent)"
    by (rule get_ai_insights_returns)
next
  assume "first_failure ds ai_statements = None \<and> 3 \<le> length (study_sessions ds) \<and>
          service (ai_prompt json_dumps ds) = Inl e"
  then show "get_ai_insights json_dumps (Some service) ds =
      (Inr (error_message (str_error e)), [ai_prompt json_dumps ds])"
    by (simp add: get_ai_insights_def ai_try_service)
next
  show "\<exists>pre suf. error_message (str_error e) = pre @ ''Error details: '' @ str_error e @ suf"
    by (rule error_message_detail)
qed

theorem service_failure_absorbed_witness:
  "first_failure (store example_sessions example_wellness no_failure) ai_statements = None \<and>
   3 \<le> length (study_sessions (store example_sessions example_wellness no_failure)) \<and>
   failing_service (ai_prompt json_stand_in (store example_sessions example_wellness no_failure)) =
     Inl (ServiceError ''429 quota exceeded'') \<and>
   get_ai_insights json_stand_in (Some failing_service)
       (store example_sessions example_wellness no_failure) =
     (Inr (error_message ''429 quota exceeded''),
      [ai_prompt json_stand_in (store example_sessions example_wellness no_failure)])"
proof -
  let ?ds = "store example_sessions example_wellness no_failure"
  have f: "first_failure ?ds ai_statements = None" by (rule example_store_answers)
  have n: "3 \<le> length (study_sessions ?ds)" by (simp add: store_def example_sessions_def)
  have s: "failing_service (ai_prompt json_stand_in ?ds) = Inl (ServiceError ''429 quota exceeded'')"
    by (simp add: failing_service_def)
  note t = service_failure_absorbed
      [of json_stand_in "Some failing_service" ?ds failing_service "ServiceError ''429 quota exceeded''",
       THEN conjunct2, rule_format, OF conjI [OF f conjI [OF n s]], THEN conjunct1]
  show ?thesis using f n s t by simp
qed

text \<open>
  C5, as amended. A failure of the store during \<^verbatim>\<open>patterns\<close> leaves the function as the
  exception it is. A failure of the store during the reads of \<^verbatim>\<open>get_ai_insights\<close>, with a
  configured service, is caught by the handler of the function and turned into the fallback
  text with its detail, the service not being called; with no service configured the store
  is not read.
\<close>

theorem store_failure_propagation:
  "(first_failure ds patterns_statements = Some e \<longrightarrow> patterns ds = Inl e) \<and>
   (first_failure ds ai_statements = Some e \<longrightarrow>
      get_ai_insights json_dumps (Some service) ds = (Inr (error_message (str_error e)), [])) \<and>
   get_ai_insights json_dumps None ds = (Inr unavailable_message, [])"
  by (simp add: patterns_first_failure get_ai_insights_def ai_try_store_failure)

theorem store_failure_propagation_witness:
  "first_failure (store example_sessions [] no_connection) patterns_statements =
     Some (StoreError ''unable to open database file'') \<and>
   patterns (store example_sessions [] no_connection) =
     Inl (StoreError ''unable to open database file'') \<and>
   first_failure (store example_sessions [] no_connection) ai_statements =
     Some (StoreError ''unable to open database file'') \<and>
   get_ai_insights json_stand_in (Some answering_service) (store example_sessions [] no_connection) =
     (Inr (error_message ''unable to open database file''), [])"
proof -
  let ?ds = "store example_sessions [] no_connection"
  have p: "first_failure ?ds patterns_statements = Some (StoreError ''unable to open database file'')"
    unfolding patterns_statements_def by (rule first_failure_no_connection)
  have a: "first_failure ?ds ai_statements = Some (StoreError ''unable to open database file'')"
    unfolding ai_statements_def by (rule first_failure_no_connection)
  note t = store_failure_propagation
             [of ?ds "StoreError ''unable to open database file''" json_stand_in answering_service]
  show ?thesis using p a t by simp
qed

text \<open>
  C5 as the specification words it fails: the store cannot be opened, and
  \<^verbatim>\<open>get_ai_insights\<close> returns the fallback text instead of raising.
\<close>

theorem store_failure_absorbed_by_get_ai_insights:
  "first_failure (store example_sessions [] no_connection) ai_statements =
     Some (StoreError ''unable to open database file'') \<and>
   get_ai_insights json_stand_in (Some answering_service) (store example_sessions [] no_connection) =
     (Inr (error_message ''unable to open database file''), []) \<and>
   fst (get_ai_insights json_stand_in (Some answering_service)
          (store example_sessions [] no_connection)) \<noteq>
     Inl (StoreError ''unable to open database file'')"
proof -
  let ?ds = "store example_sessions [] no_connection"
  have a: "first_failure ?ds ai_statements = Some (StoreError ''unable to open database file'')"
    unfolding ai_statements_def by (rule first_failure_no_connection)
  have g: "get_ai_insights json_stand_in (Some answering_service) ?ds =
             (Inr (error_message ''unable to open database file''), [])"
    using a by (simp add: get_ai_insights_def ai_try_store_failure)
  show ?thesis using a g by simp
qed

subsection \<open>The two variants\<close>

lemma app_old_get_db_connection_unbound: "''get_db_connection'' \<notin> set app_old_globals"
  by (simp add: app_old_globals_def)

text \<open>
  C3. \<^verbatim>\<open>patterns\<close> of \<^verbatim>\<open>app_old.py\<close> raises NameError on every store, its first statement
  calling a name the module does not bind, where \<^verbatim>\<open>patterns\<close> of app.py returns its
  findings: on the empty store the two differ.
\<close>

theorem app_old_patterns_raises_NameError:
  "app_old_patterns ds = Inl (NameError ''name 'get_db_connection' is not defined'') \<and>
   patterns (store [] [] no_failure) = Inr [getting_started_finding] \<and>
   app_old_patterns (store [] [] no_failure) \<noteq> patterns (store [] [] no_failure)"
proof -
  have o: "app_old_patterns d = Inl (NameError ''name 'get_db_connection' is not defined'')" for d
    by (simp add: app_old_patterns_def app_old_global_def app_old_get_db_connection_unbound bindE_def)
  have p: "patterns (store [] [] no_failure) = Inr [getting_started_finding]"
    by (simp add: patterns_no_failure empty_store_answers)
       (simp add: store_def queries_on_no_rows findings_cases analysed_nothing)
  show ?thesis using o p by simp
qed

end
